theory Spec2Isabelle
  imports Complex_Main
begin

section \<open>Python and JSON values shared by the services\<close>

text \<open>
  The services exchange data through PostgreSQL rows and JSON documents. A decoded JSON
  document is a value of \<open>json\<close>; a Python \<open>float\<close> and a \<open>double precision\<close> column are
  idealised as exact rationals (rounding is not modelled), a Python \<open>int\<close> and an integer
  column as \<open>int\<close>, a \<open>str\<close> as a \<open>string\<close> of ASCII characters. A timestamp is a number of
  seconds since the epoch.
\<close>

datatype json =
    JNull
  | JBool bool
  | JNum rat
  | JStr string
  | JArr "json list"
  | JObj "(string \<times> json) list"

datatype py_error = AttributeError | TypeError | IndexError | ValueError | DatabaseError

text \<open>\<open>d.get(k, default)\<close> on a dict.\<close>

definition dict_get :: "(string \<times> json) list \<Rightarrow> string \<Rightarrow> json \<Rightarrow> json" where
  "dict_get d k dflt = (case map_of d k of Some v \<Rightarrow> v | None \<Rightarrow> dflt)"

text \<open>Python's truth value of a decoded JSON value (\<open>if x:\<close>).\<close>

fun truthy :: "json \<Rightarrow> bool" where
  "truthy JNull = False"
| "truthy (JBool b) = b"
| "truthy (JNum r) = (r \<noteq> 0)"
| "truthy (JStr s) = (s \<noteq> [])"
| "truthy (JArr xs) = (xs \<noteq> [])"
| "truthy (JObj kvs) = (kvs \<noteq> [])"

text \<open>\<open>str.lower()\<close> on ASCII text.\<close>

definition lower_char :: "char \<Rightarrow> char" where
  "lower_char c =
     (case map_of (zip ''ABCDEFGHIJKLMNOPQRSTUVWXYZ'' ''abcdefghijklmnopqrstuvwxyz'') c of
        Some d \<Rightarrow> d
      | None \<Rightarrow> c)"

definition lower :: "string \<Rightarrow> string" where
  "lower s = map lower_char s"

fun starts_with :: "string \<Rightarrow> string \<Rightarrow> bool" where
  "starts_with [] s = True"
| "starts_with (p # ps) [] = False"
| "starts_with (p # ps) (c # cs) = (p = c \<and> starts_with ps cs)"

text \<open>\<open>sub in s\<close> for two strings: \<open>sub\<close> occurs in \<open>s\<close> as a contiguous run.\<close>

fun str_contains :: "string \<Rightarrow> string \<Rightarrow> bool" where
  "str_contains sub [] = (sub = [])"
| "str_contains sub (c # cs) = (starts_with sub (c # cs) \<or> str_contains sub cs)"

text \<open>\<open>str(n)\<close> for an integer: decimal digits, with a sign when negative.\<close>

definition digit_char :: "nat \<Rightarrow> char" where
  "digit_char d = ''0123456789'' ! d"

function str_nat :: "nat \<Rightarrow> string" where
  "str_nat n = (if n < 10 then [digit_char n] else str_nat (n div 10) @ [digit_char (n mod 10)])"
  by pat_completeness auto
termination
  by (relation "measure id") auto

declare str_nat.simps [simp del]

definition str_int :: "int \<Rightarrow> string" where
  "str_int i = (if i < 0 then CHR ''-'' # str_nat (nat (- i)) else str_nat (nat i))"

text \<open>
  An IP network as \<open>ipaddress.ip_network\<close> returns it: the address family, the first and
  the last address of the block as numbers, the prefix length and the text of the network
  address.
\<close>

record ip_net =
  net_version :: nat
  net_first :: nat
  net_last :: nat
  net_prefixlen :: nat
  net_address :: string

text \<open>
  The library functions the services call and whose code is not part of the repository:
  \<open>format(x, ".Nf")\<close>, \<open>hashlib.sha256(s).hexdigest()\<close>, \<open>datetime.isoformat()\<close>,
  \<open>datetime.strftime("%Y%m%d%H%M%S")\<close>, \<open>ipaddress.ip_network(s, strict=False)\<close>
  (\<open>None\<close> where it raises \<open>ValueError\<close>) and \<open>str()\<close> of a decoded JSON value. They are
  parameters of the model.
\<close>

record pylib =
  fmt_fixed :: "nat \<Rightarrow> rat \<Rightarrow> string"
  sha256_hex :: "string \<Rightarrow> string"
  isoformat :: "int \<Rightarrow> string"
  strftime_compact :: "int \<Rightarrow> string"
  ip_network :: "string \<Rightarrow> ip_net option"
  py_str :: "json \<Rightarrow> string"

text \<open>\<open>a.overlaps(b)\<close> of \<open>ipaddress\<close>: an end of one block lies in the other block.\<close>

definition addr_in_net :: "nat \<Rightarrow> ip_net \<Rightarrow> bool" where
  "addr_in_net a n = (net_first n \<le> a \<and> a \<le> net_last n)"

definition overlaps :: "ip_net \<Rightarrow> ip_net \<Rightarrow> bool" where
  "overlaps a b =
     (net_version a = net_version b \<and>
      (addr_in_net (net_first a) b \<or> addr_in_net (net_last a) b \<or>
       addr_in_net (net_first b) a \<or> addr_in_net (net_last b) a))"

section \<open>The tables\<close>

text \<open>
  A row of \<open>bgp_features_1min\<close> (the surrogate key \<open>id\<close> is the row's position in the
  table). \<open>path_length\<close> is the only nullable column.
\<close>

record feature_row =
  window_start :: int
  window_end :: int
  prefix :: string
  origin_as :: int
  announcements :: int
  withdrawals :: int
  total_updates :: int
  withdrawal_ratio :: rat
  flap_count :: int
  path_length :: "rat option"
  unique_peers :: int
  message_rate :: rat
  session_resets :: int

text \<open>
  A row of \<open>hybrid_anomaly_detections\<close>. The columns \<open>peer_ip\<close>, \<open>peer_asn\<close>, \<open>as_path\<close>
  and \<open>next_hop\<close>, which every detector writes as NULL, are left out.
\<close>

record detection =
  det_timestamp :: int
  detection_id :: string
  det_prefix :: string
  prefix_length :: "int option"
  det_origin_as :: int
  event_type :: string
  message_type :: string
  rpki_status :: string
  rpki_anomaly :: bool
  combined_anomaly :: bool
  combined_score :: rat
  combined_severity :: string
  classification :: string
  metadata :: json

text \<open>
  The row \<open>id = 1\<close> of a detector's \<open>*_inference_state\<close> table; the table may hold no
  such row.
\<close>

record inference_state =
  last_processed_timestamp :: "int option"
  total_processed :: int

text \<open>
  A row of \<open>ip_rib\<close> (the columns the aggregator reads) and the table \<open>base_attrs\<close>,
  keyed by \<open>hash_id\<close>, with its nullable column \<open>as_path_count\<close>.
\<close>

record rib_row =
  rib_timestamp :: int
  rib_prefix :: string
  rib_origin_as :: int
  iswithdrawn :: bool
  peer_hash_id :: string
  base_attr_hash_id :: "string option"

text \<open>
  The shared store. Tables are lists of rows in insertion order; \<open>detections\<close> holds
  at most one row per \<open>detection_id\<close> (its unique key). A state table holds its row
  \<open>id = 1\<close> or nothing.
\<close>

record database =
  ip_rib :: "rib_row list"
  base_attrs :: "(string \<times> int option) list"
  features :: "feature_row list"
  detections :: "detection list"
  aggregator_state :: "int option option"
  heuristic_state :: "inference_state option"
  rpki_state :: "inference_state option"

text \<open>
  What the database does to the statements of one poll is decided outside the program:
  a statement either executes or raises. The faults of a poll say which statements raise.
\<close>

record db_faults =
  state_read_fails :: bool
  fetch_fails :: bool
  baseline_query_fails :: "feature_row \<Rightarrow> bool"
  insert_fails :: "detection \<Rightarrow> bool"
  state_update_fails :: bool

text \<open>Sequencing of calls that may raise: the first exception ends the sequence.\<close>

definition py_bind :: "py_error + 'a \<Rightarrow> ('a \<Rightarrow> py_error + 'b) \<Rightarrow> py_error + 'b" where
  "py_bind r f = (case r of Inl e \<Rightarrow> Inl e | Inr v \<Rightarrow> f v)"

section \<open>Statements and their parameters\<close>

text \<open>
  \<open>cursor.execute(sql, params)\<close> of the PostgreSQL driver: each \<open>%s\<close> of the statement
  text stands for one parameter. With no parameter sequence the text goes to the server
  as it is, and the server rejects a text that still holds a \<open>%s\<close>; with a sequence of
  the wrong length the driver raises.
\<close>

fun count_placeholders :: "string \<Rightarrow> nat" where
  "count_placeholders (a # b # cs) =
     (if a = CHR ''%'' \<and> b = CHR ''s'' then Suc (count_placeholders cs)
      else count_placeholders (b # cs))"
| "count_placeholders cs = 0"

definition bind_parameters :: "string \<Rightarrow> 'a list option \<Rightarrow> py_error + 'a list" where
  "bind_parameters sql params =
     (case params of
        None \<Rightarrow> if count_placeholders sql = 0 then Inr [] else Inl DatabaseError
      | Some ps \<Rightarrow>
          if length ps < count_placeholders sql then Inl IndexError
          else if length ps > count_placeholders sql then Inl TypeError
          else Inr ps)"

text \<open>
  The statement of \<open>update_state\<close>, the same in the three detectors but for the table
  name, and what it does to the state row once its two parameters are bound.
\<close>

definition update_state_sql :: "string \<Rightarrow> string" where
  "update_state_sql table =
     ''UPDATE '' @ table @ '' SET last_processed_timestamp = %s, ''
       @ ''total_processed = total_processed + %s, last_update = NOW() WHERE id = 1''"

definition execute_state_update ::
    "string \<Rightarrow> int list option \<Rightarrow> inference_state option \<Rightarrow> py_error + inference_state option" where
  "execute_state_update sql params row =
     py_bind (bind_parameters sql params) (\<lambda>ps.
       case ps of
         [last_ts, n] \<Rightarrow>
           Inr (map_option (\<lambda>st. st\<lparr>last_processed_timestamp := Some last_ts,
                                     total_processed := total_processed st + n\<rparr>) row)
       | _ \<Rightarrow> Inl DatabaseError)"

section \<open>Heuristic detector (\<open>services/heuristic_detector.py\<close>)\<close>

subsection \<open>Thresholds\<close>

definition churn_moderate :: int where "churn_moderate = 1212"
definition churn_severe :: int where "churn_severe = 6012"
definition churn_critical :: int where "churn_critical = 24000"
definition flapping_medium :: int where "flapping_medium = 132"
definition flapping_high :: int where "flapping_high = 372"
definition flapping_critical :: int where "flapping_critical = 1200"
definition path_length_mild :: int where "path_length_mild = 16"
definition path_length_severe :: int where "path_length_severe = 25"
definition withdrawal_ratio_high :: rat where "withdrawal_ratio_high = 70 / 100"
definition withdrawal_ratio_critical :: rat where "withdrawal_ratio_critical = 90 / 100"
definition path_inflation_high :: int where "path_inflation_high = 5"
definition path_inflation_critical :: int where "path_inflation_critical = 10"
definition volume_spike_high :: int where "volume_spike_high = 100000"
definition volume_spike_critical :: int where "volume_spike_critical = 500000"
definition session_resets_medium :: int where "session_resets_medium = 6"
definition session_resets_high :: int where "session_resets_high = 11"
definition session_resets_critical :: int where "session_resets_critical = 50"

definition BOGON_ASN_RANGES :: "(int \<times> int) list" where
  "BOGON_ASN_RANGES = [(64512, 65534), (4200000000, 4294967294)]"

definition BOGON_PREFIXES :: "string list" where
  "BOGON_PREFIXES =
     [''0.0.0.0/8'', ''10.0.0.0/8'', ''100.64.0.0/10'', ''127.0.0.0/8'', ''169.254.0.0/16'',
      ''172.16.0.0/12'', ''192.0.0.0/24'', ''192.0.2.0/24'', ''192.168.0.0/16'',
      ''198.18.0.0/15'', ''198.51.100.0/24'', ''203.0.113.0/24'', ''224.0.0.0/4'',
      ''240.0.0.0/4'', ''255.255.255.255/32'']"

subsection \<open>Rules\<close>

record heuristic_hit =
  rule_name :: string
  severity :: string
  score :: rat
  reason :: string

definition check_churn :: "pylib \<Rightarrow> feature_row \<Rightarrow> heuristic_hit option" where
  "check_churn lib row =
     (let tu = total_updates row; churn_per_hour = tu * 60 in
      if churn_per_hour > churn_critical then
        Some \<lparr>rule_name = ''churn_critical'', severity = ''critical'', score = 95 / 100,
          reason = ''total_updates='' @ str_int tu @ '' ('' @ fmt_fixed lib 0 (of_int churn_per_hour)
            @ ''/hr) exceeds critical threshold '' @ str_int churn_critical @ ''/hr''\<rparr>
      else if churn_per_hour > churn_severe then
        Some \<lparr>rule_name = ''churn_severe'', severity = ''high'', score = 8 / 10,
          reason = ''total_updates='' @ str_int tu @ '' ('' @ fmt_fixed lib 0 (of_int churn_per_hour)
            @ ''/hr) exceeds severe threshold '' @ str_int churn_severe @ ''/hr''\<rparr>
      else if churn_per_hour > churn_moderate then
        Some \<lparr>rule_name = ''churn_moderate'', severity = ''medium'', score = 6 / 10,
          reason = ''total_updates='' @ str_int tu @ '' ('' @ fmt_fixed lib 0 (of_int churn_per_hour)
            @ ''/hr) exceeds moderate threshold '' @ str_int churn_moderate @ ''/hr''\<rparr>
      else None)"

definition check_withdrawal_ratio :: "pylib \<Rightarrow> feature_row \<Rightarrow> heuristic_hit option" where
  "check_withdrawal_ratio lib row =
     (let ratio = withdrawal_ratio row; wd = withdrawals row; withdrawals_per_hour = wd * 60 in
      if ratio \<ge> withdrawal_ratio_critical \<and> withdrawals_per_hour > 300 then
        Some \<lparr>rule_name = ''withdrawal_storm_critical'', severity = ''critical'', score = 95 / 100,
          reason = ''withdrawal_ratio='' @ fmt_fixed lib 2 ratio @ '', withdrawals='' @ str_int wd
            @ '' ('' @ fmt_fixed lib 0 (of_int withdrawals_per_hour)
            @ ''/hr) - withdrawal storm detected''\<rparr>
      else if ratio \<ge> withdrawal_ratio_high \<and> withdrawals_per_hour > 600 then
        Some \<lparr>rule_name = ''withdrawal_storm_high'', severity = ''high'', score = 8 / 10,
          reason = ''withdrawal_ratio='' @ fmt_fixed lib 2 ratio @ '', withdrawals='' @ str_int wd
            @ '' ('' @ fmt_fixed lib 0 (of_int withdrawals_per_hour)
            @ ''/hr) - high withdrawal activity''\<rparr>
      else None)"

definition check_flapping :: "pylib \<Rightarrow> feature_row \<Rightarrow> heuristic_hit option" where
  "check_flapping lib row =
     (let fc = flap_count row; flap_per_hour = fc * 60 in
      if flap_per_hour > flapping_critical then
        Some \<lparr>rule_name = ''flap_critical'', severity = ''critical'', score = 95 / 100,
          reason = ''flap_count='' @ str_int fc @ '' ('' @ fmt_fixed lib 0 (of_int flap_per_hour)
            @ ''/hr) exceeds critical threshold '' @ str_int flapping_critical @ ''/hr''\<rparr>
      else if flap_per_hour > flapping_high then
        Some \<lparr>rule_name = ''flap_high'', severity = ''high'', score = 8 / 10,
          reason = ''flap_count='' @ str_int fc @ '' ('' @ fmt_fixed lib 0 (of_int flap_per_hour)
            @ ''/hr) exceeds high threshold '' @ str_int flapping_high @ ''/hr''\<rparr>
      else if flap_per_hour > flapping_medium then
        Some \<lparr>rule_name = ''flap_medium'', severity = ''medium'', score = 6 / 10,
          reason = ''flap_count='' @ str_int fc @ '' ('' @ fmt_fixed lib 0 (of_int flap_per_hour)
            @ ''/hr) exceeds medium threshold '' @ str_int flapping_medium @ ''/hr''\<rparr>
      else None)"

definition check_path_length :: "pylib \<Rightarrow> feature_row \<Rightarrow> heuristic_hit option" where
  "check_path_length lib row =
     (case path_length row of
        None \<Rightarrow> None
      | Some pl \<Rightarrow>
          if pl > of_int path_length_severe then
            Some \<lparr>rule_name = ''path_length_severe'', severity = ''high'', score = 85 / 100,
              reason = ''path_length='' @ fmt_fixed lib 1 pl @ '' exceeds severe threshold ''
                @ str_int path_length_severe\<rparr>
          else if pl > of_int path_length_mild then
            Some \<lparr>rule_name = ''path_length_mild'', severity = ''medium'', score = 6 / 10,
              reason = ''path_length='' @ fmt_fixed lib 1 pl @ '' exceeds mild threshold ''
                @ str_int path_length_mild\<rparr>
          else None)"

fun bogon_asn_scan :: "int \<Rightarrow> (int \<times> int) list \<Rightarrow> heuristic_hit option" where
  "bogon_asn_scan asn [] = None"
| "bogon_asn_scan asn ((start, end') # ranges) =
     (if start \<le> asn \<and> asn \<le> end' then
        Some \<lparr>rule_name = ''bogon_asn_critical'', severity = ''critical'', score = 95 / 100,
          reason = ''origin_as='' @ str_int asn @ '' is in private/reserved range ['' @ str_int start
            @ ''-'' @ str_int end' @ ''] - should not be in public routing''\<rparr>
      else bogon_asn_scan asn ranges)"

definition check_bogon_asn :: "feature_row \<Rightarrow> heuristic_hit option" where
  "check_bogon_asn row = bogon_asn_scan (origin_as row) BOGON_ASN_RANGES"

text \<open>
  The loop of \<open>check_bogon_prefix\<close> over the bogon list; \<open>Inl\<close> where \<open>ip_network\<close>
  raises.
\<close>

fun bogon_prefix_scan :: "pylib \<Rightarrow> string \<Rightarrow> ip_net \<Rightarrow> string list \<Rightarrow> py_error + heuristic_hit option" where
  "bogon_prefix_scan lib prefix_str announced [] = Inr None"
| "bogon_prefix_scan lib prefix_str announced (bogon_str # rest) =
     (case ip_network lib bogon_str of
        None \<Rightarrow> Inl ValueError
      | Some bogon_network \<Rightarrow>
          if overlaps announced bogon_network then
            Inr (Some \<lparr>rule_name = ''bogon_prefix_critical'', severity = ''critical'',
              score = 95 / 100,
              reason = ''prefix='' @ prefix_str @ '' overlaps with bogon range '' @ bogon_str
                @ '' - reserved/private prefix should not be routed''\<rparr>)
          else bogon_prefix_scan lib prefix_str announced rest)"

definition check_bogon_prefix :: "pylib \<Rightarrow> feature_row \<Rightarrow> heuristic_hit option" where
  "check_bogon_prefix lib row =
     (let prefix_str = prefix row in
      if prefix_str = [] then None
      else
        (case ip_network lib prefix_str of
           None \<Rightarrow> None
         | Some announced \<Rightarrow>
             (case bogon_prefix_scan lib prefix_str announced BOGON_PREFIXES of
                Inl e \<Rightarrow> None
              | Inr hit \<Rightarrow> hit)))"

text \<open>
  The baseline query of \<open>check_path_inflation\<close>: the average \<open>path_length\<close> of the
  feature rows of the same prefix and origin between seven days and one hour before the
  row's window (both ends included), NULL when there is none.
\<close>

definition baseline_path :: "feature_row list \<Rightarrow> feature_row \<Rightarrow> rat option" where
  "baseline_path tbl row =
     (let vals = List.map_filter path_length
            (filter (\<lambda>r. prefix r = prefix row \<and> origin_as r = origin_as row \<and>
                         window_start row - 604800 \<le> window_start r \<and>
                         window_start r \<le> window_start row - 3600) tbl)
      in if vals = [] then None else Some (sum_list vals / of_nat (length vals)))"

definition check_path_inflation ::
    "pylib \<Rightarrow> db_faults \<Rightarrow> feature_row list \<Rightarrow> feature_row \<Rightarrow> heuristic_hit option" where
  "check_path_inflation lib faults tbl row =
     (case path_length row of
        None \<Rightarrow> None
      | Some current_path \<Rightarrow>
          if prefix row = [] \<or> origin_as row = 0 \<or> current_path = 0 then None
          else if baseline_query_fails faults row then None
          else
            (case baseline_path tbl row of
               None \<Rightarrow> None
             | Some baseline \<Rightarrow>
                 (let delta = current_path - baseline in
                  if delta > of_int path_inflation_critical then
                    Some \<lparr>rule_name = ''path_inflation_critical'', severity = ''critical'',
                      score = 95 / 100,
                      reason = ''path_length='' @ fmt_fixed lib 1 current_path @ '', baseline=''
                        @ fmt_fixed lib 1 baseline @ '', delta='' @ fmt_fixed lib 1 delta
                        @ '' (>10 hop increase) - possible path poisoning''\<rparr>
                  else if delta > of_int path_inflation_high then
                    Some \<lparr>rule_name = ''path_inflation_high'', severity = ''high'',
                      score = 8 / 10,
                      reason = ''path_length='' @ fmt_fixed lib 1 current_path @ '', baseline=''
                        @ fmt_fixed lib 1 baseline @ '', delta='' @ fmt_fixed lib 1 delta
                        @ '' (>5 hop increase) - suspicious path change''\<rparr>
                  else None)))"

definition check_volume_spike :: "pylib \<Rightarrow> feature_row \<Rightarrow> heuristic_hit option" where
  "check_volume_spike lib row =
     (let mr = message_rate row in
      if mr > of_int volume_spike_critical then
        Some \<lparr>rule_name = ''volume_spike_critical'', severity = ''critical'', score = 95 / 100,
          reason = ''message_rate='' @ fmt_fixed lib 0 mr @ '' msg/min exceeds critical threshold ''
            @ str_int volume_spike_critical @ '' - severe overload''\<rparr>
      else if mr > of_int volume_spike_high then
        Some \<lparr>rule_name = ''volume_spike_high'', severity = ''high'', score = 85 / 100,
          reason = ''message_rate='' @ fmt_fixed lib 0 mr @ '' msg/min exceeds high threshold ''
            @ str_int volume_spike_high @ '' - may stress devices''\<rparr>
      else None)"

definition check_session_resets :: "feature_row \<Rightarrow> heuristic_hit option" where
  "check_session_resets row =
     (let sr = session_resets row in
      if sr > session_resets_critical then
        Some \<lparr>rule_name = ''session_resets_critical'', severity = ''critical'', score = 95 / 100,
          reason = ''session_resets='' @ str_int sr @ '' exceeds critical threshold ''
            @ str_int session_resets_critical @ '' - DoS-level issue''\<rparr>
      else if sr \<ge> session_resets_high then
        Some \<lparr>rule_name = ''session_resets_high'', severity = ''high'', score = 85 / 100,
          reason = ''session_resets='' @ str_int sr @ '' exceeds high threshold ''
            @ str_int session_resets_high @ '' - persistent instability''\<rparr>
      else if sr \<ge> session_resets_medium then
        Some \<lparr>rule_name = ''session_resets_medium'', severity = ''medium'', score = 6 / 10,
          reason = ''session_resets='' @ str_int sr @ '' exceeds medium threshold ''
            @ str_int session_resets_medium @ '' - investigate''\<rparr>
      else None)"

definition apply_heuristics ::
    "pylib \<Rightarrow> db_faults \<Rightarrow> feature_row list \<Rightarrow> feature_row \<Rightarrow> heuristic_hit list" where
  "apply_heuristics lib faults tbl row =
     List.map_filter (\<lambda>hit. hit)
       [check_churn lib row,
        check_withdrawal_ratio lib row,
        check_flapping lib row,
        check_path_length lib row,
        check_bogon_asn row,
        check_bogon_prefix lib row,
        check_path_inflation lib faults tbl row,
        check_volume_spike lib row,
        check_session_resets row]"

subsection \<open>Building and storing a detection\<close>

definition generate_detection_id :: "pylib \<Rightarrow> int \<Rightarrow> string \<Rightarrow> int \<Rightarrow> string" where
  "generate_detection_id lib ws pfx asn =
     ''heur_'' @ take 32 (sha256_hex lib
        (''heuristic_'' @ isoformat lib ws @ ''_'' @ pfx @ ''_'' @ str_int asn))"

definition heuristic_get_prefix_length :: "pylib \<Rightarrow> string \<Rightarrow> int" where
  "heuristic_get_prefix_length lib prefix_str =
     (case ip_network lib prefix_str of
        Some network \<Rightarrow> int (net_prefixlen network)
      | None \<Rightarrow> if CHR '':'' \<notin> set prefix_str then 32 else 128)"

fun determine_classification :: "heuristic_hit list \<Rightarrow> py_error + string" where
  "determine_classification [] = Inl IndexError"
| "determine_classification [hit] =
     Inr (if str_contains ''churn'' (rule_name hit) then ''churn_spike''
          else if str_contains ''withdrawal'' (rule_name hit) then ''withdrawal_burst''
          else if str_contains ''flap'' (rule_name hit) then ''route_flap''
          else if str_contains ''path_length'' (rule_name hit) then ''path_anomaly''
          else if str_contains ''path_inflation'' (rule_name hit) then ''path_inflation''
          else if str_contains ''bogon_asn'' (rule_name hit) then ''bogon_asn''
          else if str_contains ''bogon_prefix'' (rule_name hit) then ''bogon_prefix''
          else if str_contains ''volume_spike'' (rule_name hit) then ''volume_spike''
          else if str_contains ''session_resets'' (rule_name hit) then ''session_instability''
          else ''unknown'')"
| "determine_classification hits = Inr ''multi_rule''"

definition heuristic_severity_order :: "string \<Rightarrow> nat" where
  "heuristic_severity_order s =
     (case map_of [(''critical'', 4), (''high'', 3), (''medium'', 2), (''low'', 1)] s of
        Some n \<Rightarrow> n
      | None \<Rightarrow> 0)"

text \<open>\<open>max(hits, key=...)\<close>: the first hit of the greatest rank; it raises on no hit.\<close>

fun get_max_severity :: "heuristic_hit list \<Rightarrow> py_error + string" where
  "get_max_severity [] = Inl ValueError"
| "get_max_severity (h # hs) =
     Inr (severity (fold (\<lambda>x best.
            if heuristic_severity_order (severity x) > heuristic_severity_order (severity best)
            then x else best) hs h))"

fun max_score :: "heuristic_hit list \<Rightarrow> py_error + rat" where
  "max_score [] = Inl ValueError"
| "max_score (h # hs) = Inr (fold (\<lambda>x best. max (score x) best) hs (score h))"

definition hit_json :: "heuristic_hit \<Rightarrow> json" where
  "hit_json hit =
     JObj [(''rule_name'', JStr (rule_name hit)), (''severity'', JStr (severity hit)),
           (''score'', JNum (score hit)), (''reason'', JStr (reason hit))]"

definition heuristic_metadata :: "feature_row \<Rightarrow> heuristic_hit list \<Rightarrow> rat \<Rightarrow> json" where
  "heuristic_metadata row hits heuristic_score =
     JObj [(''triggered_rules'', JArr (map hit_json hits)),
           (''raw_features'', JObj
              [(''announcements'', JNum (of_int (announcements row))),
               (''withdrawals'', JNum (of_int (withdrawals row))),
               (''total_updates'', JNum (of_int (total_updates row))),
               (''withdrawal_ratio'', JNum (withdrawal_ratio row)),
               (''flap_count'', JNum (of_int (flap_count row))),
               (''path_length'', (case path_length row of Some pl \<Rightarrow> JNum pl | None \<Rightarrow> JNull)),
               (''unique_peers'', JNum (of_int (unique_peers row))),
               (''message_rate'', JNum (message_rate row)),
               (''session_resets'', JNum (of_int (session_resets row)))]),
           (''heuristic_score'', JNum heuristic_score),
           (''detector_type'', JStr ''HeuristicDetector''),
           (''version'', JStr ''v1.0'')]"

text \<open>The detection record \<open>process_feature_rows\<close> builds for a row with hits.\<close>

definition build_detection :: "pylib \<Rightarrow> feature_row \<Rightarrow> heuristic_hit list \<Rightarrow> py_error + detection" where
  "build_detection lib row hits =
     py_bind (max_score hits) (\<lambda>heuristic_score.
     py_bind (get_max_severity hits) (\<lambda>sev.
     py_bind (determine_classification hits) (\<lambda>cls.
       Inr \<lparr>det_timestamp = window_start row,
            detection_id = generate_detection_id lib (window_start row) (prefix row) (origin_as row),
            det_prefix = prefix row,
            prefix_length = Some (heuristic_get_prefix_length lib (prefix row)),
            det_origin_as = origin_as row,
            event_type = ''heuristic'',
            message_type = ''bgp_features_1min'',
            rpki_status = ''unknown'',
            rpki_anomaly = False,
            combined_anomaly = (sev \<in> set [''medium'', ''high'', ''critical'']),
            combined_score = heuristic_score,
            combined_severity = sev,
            classification = cls,
            metadata = heuristic_metadata row hits heuristic_score\<rparr>)))"

text \<open>
  \<open>INSERT ... ON CONFLICT (detection_id) DO UPDATE SET combined_score, combined_anomaly,
  combined_severity, metadata, timestamp\<close>: the stored row takes these five columns from
  the new one and keeps the others.
\<close>

definition overwrite_detection :: "detection \<Rightarrow> detection \<Rightarrow> detection" where
  "overwrite_detection excluded stored =
     stored\<lparr>combined_score := combined_score excluded,
            combined_anomaly := combined_anomaly excluded,
            combined_severity := combined_severity excluded,
            metadata := metadata excluded,
            det_timestamp := det_timestamp excluded\<rparr>"






subsection \<open>Checkpoint and main loop\<close>

definition heuristic_get_last_processed_timestamp ::
    "db_faults \<Rightarrow> int \<Rightarrow> database \<Rightarrow> py_error + int" where
  "heuristic_get_last_processed_timestamp faults now db =
     (if state_read_fails faults then Inl DatabaseError
      else
        (case heuristic_state db of
           None \<Rightarrow> Inr now
         | Some st \<Rightarrow>
             (case last_processed_timestamp st of
                None \<Rightarrow> Inr now
              | Some ts \<Rightarrow> Inr ts)))"

text \<open>
  \<open>SELECT ... WHERE window_start > last_ts ORDER BY window_start, prefix, origin_as\<close>;
  rows of one window keep their table order here.
\<close>

definition heuristic_fetch_new_feature_rows ::
    "db_faults \<Rightarrow> database \<Rightarrow> int \<Rightarrow> py_error + feature_row list" where
  "heuristic_fetch_new_feature_rows faults db last_ts =
     (if fetch_fails faults then Inl DatabaseError
      else Inr (sort_key window_start (filter (\<lambda>r. window_start r > last_ts) (features db))))"



text \<open>
  The batch a pass of the loop fetches (none when reading the checkpoint or the fetch
  raises), and the loop itself over a sequence of polls: each poll has its faults and its
  clock time, and finds the feature rows that the aggregator inserted since the poll
  before. It gives the batches fetched, poll by poll, and the store at the end.
\<close>

definition heuristic_poll_batch :: "db_faults \<Rightarrow> int \<Rightarrow> database \<Rightarrow> feature_row list" where
  "heuristic_poll_batch faults now db =
     (case py_bind (heuristic_get_last_processed_timestamp faults now db)
             (heuristic_fetch_new_feature_rows faults db) of
        Inl e \<Rightarrow> []
      | Inr df \<Rightarrow> df)"


section \<open>Correlator (\<open>services/correlation_engine.py\<close>)\<close>

definition correlator_severity_items :: "(string \<times> nat) list" where
  "correlator_severity_items = [(''low'', 1), (''medium'', 2), (''high'', 3), (''critical'', 4)]"

definition correlator_severity_order :: "string \<Rightarrow> nat" where
  "correlator_severity_order x =
     (case map_of correlator_severity_items x of Some n \<Rightarrow> n | None \<Rightarrow> 0)"

text \<open>
  The loop over the RPKI detections of status \<open>invalid\<close>. Only a metadata that is a dict
  is inspected; \<open>.lower()\<close> raises on a description that is not a string.
\<close>

fun scan_rpki_invalid :: "detection list \<Rightarrow> bool \<Rightarrow> bool \<Rightarrow> py_error + (bool \<times> bool)" where
  "scan_rpki_invalid [] has_rpki_origin_mismatch has_rpki_maxlength =
     Inr (has_rpki_origin_mismatch, has_rpki_maxlength)"
| "scan_rpki_invalid (row # rows) has_rpki_origin_mismatch has_rpki_maxlength =
     (case metadata row of
        JObj md \<Rightarrow>
          (case dict_get md ''rpki_description'' (JStr []) of
             JStr s \<Rightarrow>
               (let desc = lower s in
                scan_rpki_invalid rows
                  (has_rpki_origin_mismatch \<or> str_contains ''origin as mismatch'' desc
                     \<or> str_contains ''hijack'' desc)
                  (has_rpki_maxlength \<or> str_contains ''maxlength'' desc
                     \<or> str_contains ''leak'' desc))
           | _ \<Rightarrow> Inl AttributeError)
      | _ \<Rightarrow> scan_rpki_invalid rows has_rpki_origin_mismatch has_rpki_maxlength)"

text \<open>
  \<open>x in c\<close> for a string \<open>x\<close> and a decoded JSON value \<open>c\<close>: an element equal to \<open>x\<close> in a
  list, a key in a dict, a substring in a string; it raises on anything else.
\<close>

fun str_in :: "string \<Rightarrow> json \<Rightarrow> py_error + bool" where
  "str_in x (JArr xs) = Inr (JStr x \<in> set xs)"
| "str_in x (JObj kvs) = Inr (x \<in> set (map fst kvs))"
| "str_in x (JStr s) = Inr (str_contains x s)"
| "str_in x c = Inl TypeError"

text \<open>The loop over the heuristic detections.\<close>

fun scan_heuristic :: "detection list \<Rightarrow> bool \<Rightarrow> py_error + bool" where
  "scan_heuristic [] has_path_inflation = Inr has_path_inflation"
| "scan_heuristic (row # rows) has_path_inflation =
     (case metadata row of
        JObj md \<Rightarrow>
          py_bind (str_in ''path_inflation'' (dict_get md ''triggered_rules'' (JArr [])))
            (\<lambda>found. scan_heuristic rows (has_path_inflation \<or> found))
      | _ \<Rightarrow> scan_heuristic rows has_path_inflation)"

text \<open>
  The highest severity of the group and its label: \<open>max\<close> raises on an empty frame, and
  the label lookup \<open>[...][0]\<close> raises when no member has a known severity.
\<close>

definition max_severity_label :: "detection list \<Rightarrow> py_error + string" where
  "max_severity_label detections_df =
     (if detections_df = [] then Inl ValueError
      else
        (let max_severity = Max (set (map (\<lambda>d. correlator_severity_order (combined_severity d))
                                         detections_df))
         in case filter (\<lambda>(k, v). v = max_severity) correlator_severity_items of
              [] \<Rightarrow> Inl IndexError
            | (k, v) # rest \<Rightarrow> Inr k))"

definition classify_detection_group ::
    "detection list \<Rightarrow> py_error + (string \<times> string \<times> nat \<times> string)" where
  "classify_detection_group detections_df =
     (let event_types = remdups (map event_type detections_df);
          source_count = length event_types;
          rpki_detections = filter (\<lambda>d. event_type d = ''rpki'') detections_df;
          rpki_invalid = filter (\<lambda>d. rpki_status d = ''invalid'') rpki_detections;
          has_rpki_invalid = (rpki_invalid \<noteq> []);
          heuristic_detections = filter (\<lambda>d. event_type d = ''heuristic'') detections_df;
          has_heuristic = (heuristic_detections \<noteq> [])
      in
      py_bind (scan_rpki_invalid rpki_invalid False False)
        (\<lambda>(has_rpki_origin_mismatch, has_rpki_maxlength).
      py_bind (scan_heuristic heuristic_detections False) (\<lambda>has_path_inflation.
      py_bind (max_severity_label detections_df) (\<lambda>max_severity_label.
        Inr (if has_rpki_origin_mismatch then
               (''HIJACK'', ''critical'', source_count,
                ''RPKI Origin AS mismatch detected - hijack signal'')
             else if has_rpki_maxlength \<and> has_path_inflation then
               (''LEAK'', ''critical'', source_count,
                ''RPKI MaxLength violation + Path inflation - route leak'')
             else if has_rpki_maxlength then
               (''LEAK'', ''high'', source_count,
                ''RPKI MaxLength violation - potential route leak'')
             else if has_rpki_invalid \<and> has_heuristic then
               (''INVALID'', ''high'', source_count,
                ''RPKI invalid + Heuristic anomalies detected'')
             else if has_rpki_invalid then
               (''INVALID'', ''high'', source_count, ''RPKI validation failed'')
             else if source_count \<ge> 4 then
               (''SUSPICIOUS'', ''critical'', source_count,
                ''Severe systemic issue - '' @ str_nat source_count @ '' detection sources'')
             else if source_count = 3 then
               (''SUSPICIOUS'', ''high'', source_count, ''Broad evidence - 3 detection sources'')
             else if source_count = 2 then
               (''SUSPICIOUS'', ''medium'', source_count,
                ''Stronger evidence - 2 detection sources'')
             else if source_count = 1 then
               (if max_severity_label \<in> set [''high'', ''critical'']
                then (''SUSPICIOUS'', max_severity_label, source_count,
                      ''Single detector with '' @ max_severity_label @ '' severity'')
                else (''NORMAL'', max_severity_label, source_count,
                      ''Single weak signal - informational''))
             else (''NORMAL'', ''low'', source_count, ''No significant anomaly''))))))"

section \<open>RPKI detector (\<open>services/rpki_validator_service.py\<close>)\<close>

definition ROUTINATOR_API_URL :: string where
  "ROUTINATOR_API_URL = ''http://localhost:8323/api/v1/validity''"

definition REQUEST_TIMEOUT :: nat where "REQUEST_TIMEOUT = 5"

definition MAX_RETRIES :: nat where "MAX_RETRIES = 3"

subsection \<open>Checkpoint\<close>

text \<open>
  \<open>get_last_processed_timestamp\<close>: the stored checkpoint; one hour before \<open>now\<close> when
  there is none or the query raises.
\<close>

definition rpki_get_last_processed_timestamp :: "db_faults \<Rightarrow> int \<Rightarrow> database \<Rightarrow> int" where
  "rpki_get_last_processed_timestamp faults now db =
     (if state_read_fails faults then now - 3600
      else
        (case rpki_state db of
           None \<Rightarrow> now - 3600
         | Some st \<Rightarrow>
             (case last_processed_timestamp st of
                None \<Rightarrow> now - 3600
              | Some ts \<Rightarrow> ts)))"

text \<open>
  \<open>fetch_new_features\<close>: \<open>WHERE window_start > last ORDER BY window_start ASC\<close>; an empty
  frame when the query raises.
\<close>

definition fetch_new_features :: "db_faults \<Rightarrow> database \<Rightarrow> int \<Rightarrow> feature_row list" where
  "fetch_new_features faults db last_processed_timestamp' =
     (if fetch_fails faults then []
      else sort_key window_start
             (filter (\<lambda>r. window_start r > last_processed_timestamp') (features db)))"

text \<open>
  \<open>update_state\<close>: the statement is executed without a parameter sequence; \<open>except
  Exception\<close> logs and rolls back.
\<close>

definition rpki_update_state :: "db_faults \<Rightarrow> database \<Rightarrow> int \<Rightarrow> nat \<Rightarrow> database" where
  "rpki_update_state faults db last_timestamp processed_count =
     (case (if state_update_fails faults then Inl DatabaseError
            else execute_state_update (update_state_sql ''rpki_inference_state'') None
                   (rpki_state db)) of
        Inl e \<Rightarrow> db
      | Inr row \<Rightarrow> db\<lparr>rpki_state := row\<rparr>)"

subsection \<open>Querying the validator\<close>

text \<open>
  What one \<open>requests.get\<close> comes to: a response with its status code and its body
  decoded as JSON (\<open>None\<close> when the body is not JSON), a timeout, a connection error, or
  another exception. The validator's answers are given from outside, by URL and attempt.
  The requests (with their timeout) and the sleeps of a query are recorded.
\<close>

datatype http_outcome =
    Response nat "json option"
  | Timeout
  | ConnectionError
  | OtherRequestError

datatype io_event = HttpGet string nat | Sleep nat

fun split_on :: "char \<Rightarrow> string \<Rightarrow> string list" where
  "split_on sep [] = [[]]"
| "split_on sep (c # cs) =
     (if c = sep then [] # split_on sep cs
      else (case split_on sep cs of
              w # ws \<Rightarrow> (c # w) # ws
            | [] \<Rightarrow> [[c]]))"

text \<open>
  \<open>int(s)\<close> on the text after the slash of a prefix: decimal digits with an optional
  sign; \<open>None\<close> where it raises.
\<close>

definition digit_of :: "char \<Rightarrow> nat option" where
  "digit_of c = map_of (zip ''0123456789'' [0, 1, 2, 3, 4, 5, 6, 7, 8, 9]) c"

fun digits_value :: "string \<Rightarrow> nat \<Rightarrow> nat option" where
  "digits_value [] acc = Some acc"
| "digits_value (c # cs) acc =
     (case digit_of c of None \<Rightarrow> None | Some d \<Rightarrow> digits_value cs (10 * acc + d))"

definition py_int :: "string \<Rightarrow> int option" where
  "py_int s =
     (case s of
        [] \<Rightarrow> None
      | c # cs \<Rightarrow>
          if c = CHR ''-'' then (if cs = [] then None
                                 else map_option (\<lambda>n. - int n) (digits_value cs 0))
          else if c = CHR ''+'' then (if cs = [] then None
                                      else map_option int (digits_value cs 0))
          else map_option int (digits_value s 0))"

definition rpki_get_prefix_length :: "string \<Rightarrow> int option" where
  "rpki_get_prefix_length prefix_str =
     (case split_on CHR ''/'' prefix_str of
        a # b # rest \<Rightarrow> py_int b
      | _ \<Rightarrow> None)"

text \<open>The timeouts of the requests in a record of requests and sleeps.\<close>

fun request_timeouts :: "io_event list \<Rightarrow> nat list" where
  "request_timeouts [] = []"
| "request_timeouts (HttpGet url t # ev) = t # request_timeouts ev"
| "request_timeouts (Sleep n # ev) = request_timeouts ev"

definition validity_url :: "int \<Rightarrow> ip_net \<Rightarrow> string" where
  "validity_url asn network =
     ROUTINATOR_API_URL @ ''/'' @ str_int asn @ ''/'' @ net_address network @ ''/''
       @ str_nat (net_prefixlen network)"

text \<open>The body of \<open>for attempt in range(MAX_RETRIES)\<close>.\<close>

fun attempts_loop ::
    "(nat \<Rightarrow> http_outcome) \<Rightarrow> string \<Rightarrow> nat list \<Rightarrow> json option \<times> io_event list" where
  "attempts_loop http url [] = (None, [])"
| "attempts_loop http url (attempt # rest) =
     (case http attempt of
        Response status_code body \<Rightarrow>
          if status_code = 200 then (body, [HttpGet url REQUEST_TIMEOUT])
          else if status_code = 503 then
            (case attempts_loop http url rest of
               (r, ev) \<Rightarrow> (r, HttpGet url REQUEST_TIMEOUT # Sleep 5 # ev))
          else (None, [HttpGet url REQUEST_TIMEOUT])
      | Timeout \<Rightarrow>
          (case attempts_loop http url rest of
             (r, ev) \<Rightarrow>
               (r, HttpGet url REQUEST_TIMEOUT
                     # (if attempt < MAX_RETRIES - 1 then [Sleep 2] else []) @ ev))
      | ConnectionError \<Rightarrow> (None, [HttpGet url REQUEST_TIMEOUT])
      | OtherRequestError \<Rightarrow> (None, [HttpGet url REQUEST_TIMEOUT]))"

definition query_routinator_api ::
    "pylib \<Rightarrow> (string \<Rightarrow> nat \<Rightarrow> http_outcome) \<Rightarrow> int \<Rightarrow> string \<Rightarrow> json option \<times> io_event list" where
  "query_routinator_api lib http asn prefix_str =
     (case ip_network lib prefix_str of
        None \<Rightarrow> (None, [])
      | Some network \<Rightarrow>
          (let url = validity_url asn network in
           attempts_loop (http url) url [0..<MAX_RETRIES]))"

subsection \<open>The decision over the validator's response\<close>

text \<open>A method call \<open>x.get(...)\<close> raises unless \<open>x\<close> is a dict.\<close>

definition as_dict :: "json \<Rightarrow> py_error + (string \<times> json) list" where
  "as_dict x = (case x of JObj d \<Rightarrow> Inr d | _ \<Rightarrow> Inl AttributeError)"

text \<open>\<open>x.lower()\<close> raises unless \<open>x\<close> is a string.\<close>

definition as_lower :: "json \<Rightarrow> py_error + string" where
  "as_lower x = (case x of JStr s \<Rightarrow> Inr (lower s) | _ \<Rightarrow> Inl AttributeError)"

text \<open>
  \<open>for v in x\<close>: the elements of a list, the keys of a dict, the characters of a string;
  it raises on anything else.
\<close>

definition py_iter :: "json \<Rightarrow> py_error + json list" where
  "py_iter x =
     (case x of
        JArr xs \<Rightarrow> Inr xs
      | JObj kvs \<Rightarrow> Inr (map (\<lambda>kv. JStr (fst kv)) kvs)
      | JStr s \<Rightarrow> Inr (map (\<lambda>c. JStr [c]) s)
      | _ \<Rightarrow> Inl TypeError)"

text \<open>\<open>x == n\<close> for a decoded JSON value and an integer.\<close>

definition py_eq_int :: "json \<Rightarrow> int \<Rightarrow> bool" where
  "py_eq_int x n =
     (case x of
        JNum r \<Rightarrow> r = of_int n
      | JBool b \<Rightarrow> (if b then 1 else 0) = n
      | _ \<Rightarrow> False)"

text \<open>\<open>n > x\<close> for an integer and a decoded JSON value; it raises unless \<open>x\<close> is a number.\<close>

definition py_int_gt :: "int \<Rightarrow> json \<Rightarrow> py_error + bool" where
  "py_int_gt n x =
     (case x of
        JNum r \<Rightarrow> Inr (of_int n > r)
      | JBool b \<Rightarrow> Inr (n > (if b then 1 else 0))
      | _ \<Rightarrow> Inl TypeError)"

text \<open>The inner loop that collects \<open>roa_origins\<close> from one VRP list.\<close>

fun collect_roa_origins :: "int \<Rightarrow> json list \<Rightarrow> json list \<Rightarrow> py_error + json list" where
  "collect_roa_origins origin roa_origins [] = Inr roa_origins"
| "collect_roa_origins origin roa_origins (vrp # vrps) =
     py_bind (as_dict vrp) (\<lambda>d.
       (let roa_origin = dict_get d ''asn'' JNull in
        if truthy roa_origin \<and> \<not> py_eq_int roa_origin origin
        then collect_roa_origins origin (roa_origins @ [roa_origin]) vrps
        else collect_roa_origins origin roa_origins vrps))"

text \<open>
  The loop over the matched VRPs that looks for a \<open>max_length\<close> below the prefix length:
  the first such \<open>max_length\<close>, if any.
\<close>

fun find_max_length :: "int \<Rightarrow> json list \<Rightarrow> py_error + json option" where
  "find_max_length plen [] = Inr None"
| "find_max_length plen (vrp # vrps) =
     py_bind (as_dict vrp) (\<lambda>d.
       (let max_length = dict_get d ''max_length'' JNull in
        if truthy max_length then
          py_bind (py_int_gt plen max_length) (\<lambda>longer.
            if longer then Inr (Some max_length) else find_max_length plen vrps)
        else find_max_length plen vrps))"

text \<open>
  \<open>roa_origins\<close> as the branch for an origin mismatch computes it from \<open>vrps\<close>: the
  \<open>asn\<close> values of the matched, then of the unmatched VRPs that are truthy and differ
  from the announced origin.
\<close>

definition roa_origins_of :: "int \<Rightarrow> json \<Rightarrow> py_error + json list" where
  "roa_origins_of origin vrps =
     py_bind (as_dict vrps) (\<lambda>vd.
     py_bind (py_iter (dict_get vd ''matched'' (JArr []))) (\<lambda>matched_vrps.
     py_bind (collect_roa_origins origin [] matched_vrps) (\<lambda>from_matched.
     py_bind (py_iter (dict_get vd ''unmatched'' (JArr []))) (\<lambda>unmatched_vrps.
       collect_roa_origins origin from_matched unmatched_vrps))))"

definition exceeded_max_length_of :: "int \<Rightarrow> json \<Rightarrow> py_error + json option" where
  "exceeded_max_length_of plen vrps =
     py_bind (as_dict vrps) (\<lambda>vd.
     py_bind (py_iter (dict_get vd ''matched'' (JArr []))) (\<lambda>matched_vrps.
       find_max_length plen matched_vrps))"

text \<open>
  The branch for state \<open>invalid\<close>: \<open>(validity_state, severity, description, vrps)\<close>.
\<close>

definition decide_invalid ::
    "pylib \<Rightarrow> int \<Rightarrow> int \<Rightarrow> (string \<times> json) list \<Rightarrow> json
       \<Rightarrow> py_error + (string \<times> string \<times> string \<times> json)" where
  "decide_invalid lib origin plen validity vrps =
     (let why = dict_get validity ''reason'' (JStr []) in
      py_bind (as_lower why) (\<lambda>low.
      py_bind
        (if str_contains ''as'' low \<or> str_contains ''origin'' low
         then roa_origins_of origin vrps else Inr [])
        (\<lambda>roa_origins.
      case roa_origins of
        roa # others \<Rightarrow>
          Inr (''invalid'', ''critical'',
               ''Origin AS mismatch: announced AS'' @ str_int origin @ '', ROA expects AS''
                 @ py_str lib roa @ '' - HIJACK SIGNAL'', vrps)
      | [] \<Rightarrow>
          py_bind
            (if str_contains ''length'' low \<or> str_contains ''max'' low
             then exceeded_max_length_of plen vrps else Inr None)
            (\<lambda>found.
          case found of
            Some max_length \<Rightarrow>
              Inr (''invalid'', ''high'',
                   ''MaxLength violation: prefix /'' @ str_int plen @ '' exceeds max_length /''
                     @ py_str lib max_length @ '' - LEAK/CONFIG ERROR'', vrps)
          | None \<Rightarrow>
              Inr (''invalid'', ''high'',
                   ''RPKI invalid: '' @ (case why of JStr s \<Rightarrow> s | _ \<Rightarrow> []), vrps)))))"

text \<open>
  The part of \<open>validate_rpki\<close> after the query: the decision over the response, with
  \<open>None\<close> for "no detection".
\<close>

definition decide_response ::
    "pylib \<Rightarrow> string \<Rightarrow> int \<Rightarrow> int \<Rightarrow> json
       \<Rightarrow> py_error + (string \<times> string \<times> string \<times> json) option" where
  "decide_response lib prefix_str origin plen api_response =
     py_bind (as_dict api_response) (\<lambda>body.
     py_bind (as_dict (dict_get body ''validated_route'' (JObj []))) (\<lambda>validated_route.
     py_bind (as_dict (dict_get validated_route ''validity'' (JObj []))) (\<lambda>validity.
       (let state = dict_get validity ''state'' (JStr ''unknown'');
            vrps = dict_get validated_route ''vrps'' (JObj [])
        in
        if state = JStr ''valid'' then Inr None
        else if state = JStr ''invalid'' then
          py_bind (decide_invalid lib origin plen validity vrps) (\<lambda>res. Inr (Some res))
        else if state = JStr ''not-found'' \<or> state = JStr ''unknown'' then
          Inr (Some (''unknown'', ''low'',
                     ''No ROA found for prefix '' @ prefix_str @ '' origin AS''
                       @ str_int origin @ '' - INFORMATIONAL'', vrps))
        else Inr None))))"

text \<open>
  What \<open>validate_rpki\<close> reads in a response, where the response has the shape for
  it: the \<open>validity\<close> object with its \<open>state\<close> (\<open>unknown\<close> when absent) and \<open>reason\<close>
  (empty when absent), and \<open>vrps\<close> (an empty dict when absent).
\<close>

definition validated_route_of :: "json \<Rightarrow> (string \<times> json) list option" where
  "validated_route_of api_response =
     (case api_response of
        JObj body \<Rightarrow> (case dict_get body ''validated_route'' (JObj []) of
                      JObj vr \<Rightarrow> Some vr
                    | _ \<Rightarrow> None)
      | _ \<Rightarrow> None)"

definition validity_of :: "json \<Rightarrow> (string \<times> json) list option" where
  "validity_of api_response =
     (case validated_route_of api_response of
        Some vr \<Rightarrow> (case dict_get vr ''validity'' (JObj []) of
                     JObj v \<Rightarrow> Some v
                   | _ \<Rightarrow> None)
      | None \<Rightarrow> None)"

definition state_of :: "json \<Rightarrow> json option" where
  "state_of api_response =
     map_option (\<lambda>v. dict_get v ''state'' (JStr ''unknown'')) (validity_of api_response)"

definition reason_of :: "json \<Rightarrow> json option" where
  "reason_of api_response =
     map_option (\<lambda>v. dict_get v ''reason'' (JStr [])) (validity_of api_response)"

definition vrps_of :: "json \<Rightarrow> json option" where
  "vrps_of api_response =
     map_option (\<lambda>vr. dict_get vr ''vrps'' (JObj [])) (validated_route_of api_response)"

text \<open>\<open>validate_rpki\<close>: every exception is caught and gives "no detection".\<close>

definition validate_rpki ::
    "pylib \<Rightarrow> (string \<Rightarrow> nat \<Rightarrow> http_outcome) \<Rightarrow> feature_row
       \<Rightarrow> (string \<times> string \<times> string \<times> json) option \<times> io_event list" where
  "validate_rpki lib http row =
     (case rpki_get_prefix_length (prefix row) of
        None \<Rightarrow> (None, [])
      | Some plen \<Rightarrow>
          (case query_routinator_api lib http (origin_as row) (prefix row) of
             (None, ev) \<Rightarrow> (None, ev)
           | (Some api_response, ev) \<Rightarrow>
               (case decide_response lib (prefix row) (origin_as row) plen api_response of
                  Inl e \<Rightarrow> (None, ev)
                | Inr res \<Rightarrow> (res, ev))))"

definition get_severity_score :: "string \<Rightarrow> rat" where
  "get_severity_score sev =
     (case map_of [(''critical'', 10), (''high'', 7), (''medium'', 5), (''low'', 2)] (lower sev) of
        Some n \<Rightarrow> n
      | None \<Rightarrow> 5)"

subsection \<open>Storing a detection and the main loop\<close>

text \<open>The values \<open>insert_rpki_detection\<close> passes to its \<open>INSERT\<close>.\<close>

definition rpki_detection ::
    "pylib \<Rightarrow> int \<Rightarrow> feature_row \<Rightarrow> string \<times> string \<times> string \<times> json \<Rightarrow> detection" where
  "rpki_detection lib now row rpki_result =
     (case rpki_result of (validity_state, sev, description, vrps) \<Rightarrow>
        \<lparr>det_timestamp = window_start row,
         detection_id = ''rpki_'' @ strftime_compact lib (window_start row) @ ''_'' @ prefix row
                          @ ''_'' @ str_int (origin_as row),
         det_prefix = prefix row,
         prefix_length = rpki_get_prefix_length (prefix row),
         det_origin_as = origin_as row,
         event_type = ''rpki'',
         message_type = ''rpki_validation'',
         rpki_status = validity_state,
         rpki_anomaly = (validity_state \<in> set [''invalid'', ''unknown'']),
         combined_anomaly = True,
         combined_score = get_severity_score sev,
         combined_severity = sev,
         classification = ''UNKNOWN'',
         metadata = JObj
           [(''vrps'', vrps),
            (''validation_time'', JStr (isoformat lib now)),
            (''announcements'', JNum (of_int (announcements row))),
            (''withdrawals'', JNum (of_int (withdrawals row))),
            (''unique_peers'', JNum (of_int (unique_peers row))),
            (''rpki_description'', JStr description)]\<rparr>)"

text \<open>
  \<open>insert_rpki_detection\<close>: \<open>INSERT ... ON CONFLICT (detection_id) DO NOTHING\<close>; an
  exception is logged and rolled back.
\<close>

definition insert_rpki_detection ::
    "pylib \<Rightarrow> db_faults \<Rightarrow> int \<Rightarrow> database \<Rightarrow> feature_row
       \<Rightarrow> string \<times> string \<times> string \<times> json \<Rightarrow> database" where
  "insert_rpki_detection lib faults now db row rpki_result =
     (let det = rpki_detection lib now row rpki_result in
      if insert_fails faults det then db
      else if detection_id det \<in> set (map detection_id (detections db)) then db
      else db\<lparr>detections := detections db @ [det]\<rparr>)"

fun rpki_process_feature_rows ::
    "pylib \<Rightarrow> (string \<Rightarrow> nat \<Rightarrow> http_outcome) \<Rightarrow> db_faults \<Rightarrow> int \<Rightarrow> database
       \<Rightarrow> feature_row list \<Rightarrow> nat \<Rightarrow> database \<times> nat" where
  "rpki_process_feature_rows lib http faults now db [] detection_count = (db, detection_count)"
| "rpki_process_feature_rows lib http faults now db (row # rows) detection_count =
     (case fst (validate_rpki lib http row) of
        None \<Rightarrow> rpki_process_feature_rows lib http faults now db rows detection_count
      | Some rpki_result \<Rightarrow>
          rpki_process_feature_rows lib http faults now
            (insert_rpki_detection lib faults now db row rpki_result) rows (detection_count + 1))"

text \<open>One pass of the \<open>while True\<close> loop of \<open>main\<close>, at clock time \<open>now\<close>.\<close>

definition rpki_main_iteration ::
    "pylib \<Rightarrow> (string \<Rightarrow> nat \<Rightarrow> http_outcome) \<Rightarrow> db_faults \<Rightarrow> int \<Rightarrow> database \<Rightarrow> database" where
  "rpki_main_iteration lib http faults now db =
     (let last_processed = rpki_get_last_processed_timestamp faults now db;
          df = fetch_new_features faults db last_processed
      in if df = [] then db
         else
           (case rpki_process_feature_rows lib http faults now db df 0 of
              (db', detection_count) \<Rightarrow>
                (let last_timestamp = Max (set (map window_start df)) in
                 rpki_update_state faults db' last_timestamp (length df))))"

section \<open>Feature aggregator (\<open>services/feature_aggregator.py\<close>)\<close>

text \<open>
  Modelled from the spec: the SQL function \<open>public.floor_to_1min\<close>, which the
  aggregation query calls, is created by a schema script that is not among the
  repository's files. The specification has "\<open>floor_to_1min(t)\<close> truncates to the
  nearest minute".
\<close>

definition floor_to_1min :: "int \<Rightarrow> int" where
  "floor_to_1min t = t - t mod 60"

text \<open>PostgreSQL's \<open>MOD\<close> on integers: the remainder has the sign of the dividend.\<close>

definition sql_mod :: "int \<Rightarrow> int \<Rightarrow> int" where
  "sql_mod a b = sgn a * (\<bar>a\<bar> mod \<bar>b\<bar>)"

text \<open>The \<open>GROUP BY\<close> key of an update.\<close>

definition group_key :: "rib_row \<Rightarrow> int \<times> string \<times> int" where
  "group_key r = (floor_to_1min (rib_timestamp r), rib_prefix r, rib_origin_as r)"

text \<open>
  \<open>LEFT JOIN base_attrs ba ON r.base_attr_hash_id = ba.hash_id\<close>: the \<open>as_path_count\<close>
  joined to an update, NULL when the update has no attribute row or the count is NULL
  (\<open>hash_id\<close> is the key of \<open>base_attrs\<close>, so an update joins at most one row).
\<close>

definition joined_as_path_count :: "(string \<times> int option) list \<Rightarrow> rib_row \<Rightarrow> int option" where
  "joined_as_path_count base r =
     (case base_attr_hash_id r of
        None \<Rightarrow> None
      | Some h \<Rightarrow> (case map_of base h of None \<Rightarrow> None | Some c \<Rightarrow> c))"

text \<open>
  The select list of the aggregation query for one group. Counts are never negative, so
  SQL's integer division by 2 is \<open>div\<close>; \<open>AVG\<close> skips NULLs and is NULL over none.
\<close>

definition feature_of_group ::
    "(string \<times> int option) list \<Rightarrow> int \<times> string \<times> int \<Rightarrow> rib_row list \<Rightarrow> feature_row" where
  "feature_of_group base key grp =
     (case key of (ws, pfx, asn) \<Rightarrow>
        (let ann = int (length (filter (\<lambda>r. \<not> iswithdrawn r) grp));
             wd = int (length (filter (\<lambda>r. iswithdrawn r) grp));
             path_counts = List.map_filter (joined_as_path_count base) grp
         in \<lparr>window_start = ws,
             window_end = ws + 60,
             prefix = pfx,
             origin_as = asn,
             announcements = ann,
             withdrawals = wd,
             total_updates = int (length grp),
             withdrawal_ratio = of_int wd / of_int (max ann 1),
             flap_count = (wd + ann) div 2,
             path_length =
               Some (if path_counts = [] then 2 + of_int (sql_mod asn 3)
                     else of_int (sum_list path_counts) / of_nat (length path_counts)),
             unique_peers = int (length (remdups (map peer_hash_id grp))),
             message_rate = of_int (int (length grp)) / 60,
             session_resets = 0\<rparr>))"

text \<open>
  The \<open>SELECT\<close> of \<open>aggregate_once\<close>: one row per distinct key among the updates with
  \<open>from_ts < timestamp \<le> to_ts\<close>.
\<close>

definition scanned_updates :: "rib_row list \<Rightarrow> int \<Rightarrow> int \<Rightarrow> rib_row list" where
  "scanned_updates rib from_ts to_ts =
     filter (\<lambda>r. rib_timestamp r > from_ts \<and> rib_timestamp r \<le> to_ts) rib"

definition aggregate_select ::
    "(string \<times> int option) list \<Rightarrow> rib_row list \<Rightarrow> int \<Rightarrow> int \<Rightarrow> feature_row list" where
  "aggregate_select base rib from_ts to_ts =
     (let sel = scanned_updates rib from_ts to_ts in
      map (\<lambda>k. feature_of_group base k (filter (\<lambda>r. group_key r = k) sel))
          (remdups (map group_key sel)))"

text \<open>
  \<open>aggregate_once\<close>: \<open>INSERT INTO bgp_features_1min (...) SELECT ...\<close>, returning the
  row count. The table of \<open>ensure_tables\<close> has the primary key \<open>id\<close> and no other
  constraint, and the statement has no \<open>ON CONFLICT\<close> clause: every selected row is
  appended.
\<close>

definition aggregate_once :: "database \<Rightarrow> int \<Rightarrow> int \<Rightarrow> database \<times> nat" where
  "aggregate_once db from_ts to_ts =
     (let rows = aggregate_select (base_attrs db) (ip_rib db) from_ts to_ts in
      (db\<lparr>features := features db @ rows\<rparr>, length rows))"

record aggregator_faults =
  checkpoint_read_fails :: bool
  aggregation_fails :: bool
  checkpoint_update_fails :: bool

text \<open>
  \<open>get_last_processed_timestamp\<close>: the stored checkpoint, or ten minutes before \<open>now\<close>
  when there is none, in which case the state row is inserted (\<open>ON CONFLICT DO NOTHING\<close>).
\<close>

definition aggregator_get_last_processed_timestamp :: "int \<Rightarrow> database \<Rightarrow> database \<times> int" where
  "aggregator_get_last_processed_timestamp now db =
     (case aggregator_state db of
        Some (Some last_ts) \<Rightarrow> (db, last_ts)
      | Some None \<Rightarrow> (db, now - 600)
      | None \<Rightarrow> (db\<lparr>aggregator_state := Some (Some (now - 600))\<rparr>, now - 600))"

definition update_last_processed_timestamp :: "database \<Rightarrow> int \<Rightarrow> database" where
  "update_last_processed_timestamp db ts =
     db\<lparr>aggregator_state := map_option (\<lambda>old. Some ts) (aggregator_state db)\<rparr>"

text \<open>
  One pass of the loop of \<open>main\<close> at clock time \<open>now\<close>; an exception is logged and the
  loop sleeps and goes on. The connection is in autocommit mode.
\<close>

definition aggregator_main_iteration :: "aggregator_faults \<Rightarrow> int \<Rightarrow> database \<Rightarrow> database" where
  "aggregator_main_iteration faults now db =
     (if checkpoint_read_fails faults then db
      else
        (case aggregator_get_last_processed_timestamp now db of
           (db1, from_ts) \<Rightarrow>
             (let to_ts = now in
              if from_ts \<ge> to_ts then db1
              else if aggregation_fails faults then db1
              else
                (case aggregate_once db1 from_ts to_ts of
                   (db2, rows_inserted) \<Rightarrow>
                     if checkpoint_update_fails faults then db2
                     else update_last_processed_timestamp db2 to_ts))))"

section \<open>Ensemble detector (\<open>services/ml_inference_service.py\<close>)\<close>



record baseline_entry =
  stat_mean :: rat
  stat_std :: rat

record baseline =
  isolation_forest :: baseline_entry
  lstm :: baseline_entry



text \<open>The severity chain at the end of the loop body.\<close>

definition ensemble_severity :: "rat \<Rightarrow> string" where
  "ensemble_severity combined =
     (if combined < 2 then ''low''
      else if combined < 3 then ''low''
      else if combined < 4 then ''medium''
      else if combined < 5 then ''high''
      else ''critical'')"



section \<open>Sample data\<close>

text \<open>
  A feature row of quiet traffic (five updates in its minute, a short path), from which
  concrete runs are built by changing single fields.
\<close>

definition quiet_row :: feature_row where
  "quiet_row =
     \<lparr>window_start = 1700000040, window_end = 1700000100, prefix = ''8.8.8.0/24'',
      origin_as = 15169, announcements = 5, withdrawals = 0, total_updates = 5,
      withdrawal_ratio = 0, flap_count = 2, path_length = Some (32 / 10), unique_peers = 3,
      message_rate = 5 / 60, session_resets = 0\<rparr>"

text \<open>
  A route-leak scenario as the detectors store it: in one minute, for one prefix and
  origin, the RPKI detector records a MaxLength violation and the heuristic detector
  records its \<open>path_inflation_high\<close> rule. The feature row behind both has a path of 12
  hops; an earlier row of the same prefix and origin, two hours before, has 4.
\<close>

definition leak_row :: feature_row where
  "leak_row = quiet_row\<lparr>prefix := ''193.0.14.0/25'', origin_as := 25152,
                         path_length := Some 12\<rparr>"

definition leak_history :: "feature_row list" where
  "leak_history =
     [leak_row\<lparr>window_start := 1700000040 - 7200, window_end := 1700000100 - 7200,
               path_length := Some 4\<rparr>]"

definition leak_rpki_detection :: detection where
  "leak_rpki_detection =
     \<lparr>det_timestamp = 1700000040,
      detection_id = ''rpki_20231114221400_193.0.14.0/25_25152'',
      det_prefix = ''193.0.14.0/25'', prefix_length = Some 25, det_origin_as = 25152,
      event_type = ''rpki'', message_type = ''rpki_validation'', rpki_status = ''invalid'',
      rpki_anomaly = True, combined_anomaly = True, combined_score = 7,
      combined_severity = ''high'', classification = ''UNKNOWN'',
      metadata = JObj
        [(''vrps'', JObj [(''matched'', JArr [JObj [(''asn'', JStr ''AS25152''),
             (''prefix'', JStr ''193.0.14.0/24''), (''max_length'', JNum 24)]])]),
         (''validation_time'', JStr ''2023-11-14T22:14:31+00:00''),
         (''announcements'', JNum 5), (''withdrawals'', JNum 0), (''unique_peers'', JNum 3),
         (''rpki_description'', JStr
            ''MaxLength violation: prefix /25 exceeds max_length /24 - LEAK/CONFIG ERROR'')]\<rparr>"

text \<open>A poll in which every statement executes.\<close>

definition no_faults :: db_faults where
  "no_faults =
     \<lparr>state_read_fails = False, fetch_fails = False, baseline_query_fails = (\<lambda>r. False),
      insert_fails = (\<lambda>d. False), state_update_fails = False\<rparr>"

text \<open>
  A store holding one announcement of 8.8.8.0/24 by AS15169 at 22:13:50 and an aggregator
  checkpoint at 22:13:20; nothing is aggregated yet.
\<close>

definition one_update_db :: database where
  "one_update_db =
     \<lparr>ip_rib = [\<lparr>rib_timestamp = 1700000030, rib_prefix = ''8.8.8.0/24'',
                 rib_origin_as = 15169, iswithdrawn = False, peer_hash_id = ''peer-1'',
                 base_attr_hash_id = Some ''attr-1''\<rparr>],
      base_attrs = [(''attr-1'', Some 3)],
      features = [],
      detections = [],
      aggregator_state = Some (Some 1700000000),
      heuristic_state = None,
      rpki_state = None\<rparr>"

definition one_update_feature :: feature_row where
  "one_update_feature =
     \<lparr>window_start = 1699999980, window_end = 1700000040, prefix = ''8.8.8.0/24'',
      origin_as = 15169, announcements = 1, withdrawals = 0, total_updates = 1,
      withdrawal_ratio = 0, flap_count = 0, path_length = Some 3, unique_peers = 1,
      message_rate = 1 / 60, session_resets = 0\<rparr>"

text \<open>
  A stand-in for the library functions, enough to run the sample data: it knows the
  networks of the sample prefixes and of the bogon list, and its hashing and number
  formatting return unchanged or fixed text. The properties below hold for every library;
  this one only serves to evaluate concrete runs.
\<close>

definition sample_networks :: "(string \<times> ip_net) list" where
  "sample_networks =
        [(''8.8.8.0/24'', \<lparr>net_version = 4, net_first = 134744064, net_last = 134744319,
            net_prefixlen = 24, net_address = ''8.8.8.0''\<rparr>),
         (''193.0.14.0/25'', \<lparr>net_version = 4, net_first = 3238006272, net_last = 3238006399,
            net_prefixlen = 25, net_address = ''193.0.14.0''\<rparr>),
         (''0.0.0.0/8'', \<lparr>net_version = 4, net_first = 0, net_last = 16777215,
            net_prefixlen = 8, net_address = ''0.0.0.0''\<rparr>),
         (''10.0.0.0/8'', \<lparr>net_version = 4, net_first = 167772160, net_last = 184549375,
            net_prefixlen = 8, net_address = ''10.0.0.0''\<rparr>),
         (''100.64.0.0/10'', \<lparr>net_version = 4, net_first = 1681915904, net_last = 1686110207,
            net_prefixlen = 10, net_address = ''100.64.0.0''\<rparr>),
         (''127.0.0.0/8'', \<lparr>net_version = 4, net_first = 2130706432, net_last = 2147483647,
            net_prefixlen = 8, net_address = ''127.0.0.0''\<rparr>),
         (''169.254.0.0/16'', \<lparr>net_version = 4, net_first = 2851995648, net_last = 2852061183,
            net_prefixlen = 16, net_address = ''169.254.0.0''\<rparr>),
         (''172.16.0.0/12'', \<lparr>net_version = 4, net_first = 2886729728, net_last = 2887778303,
            net_prefixlen = 12, net_address = ''172.16.0.0''\<rparr>),
         (''192.0.0.0/24'', \<lparr>net_version = 4, net_first = 3221225472, net_last = 3221225727,
            net_prefixlen = 24, net_address = ''192.0.0.0''\<rparr>),
         (''192.0.2.0/24'', \<lparr>net_version = 4, net_first = 3221225984, net_last = 3221226239,
            net_prefixlen = 24, net_address = ''192.0.2.0''\<rparr>),
         (''192.168.0.0/16'', \<lparr>net_version = 4, net_first = 3232235520, net_last = 3232301055,
            net_prefixlen = 16, net_address = ''192.168.0.0''\<rparr>),
         (''198.18.0.0/15'', \<lparr>net_version = 4, net_first = 3323068416, net_last = 3323199487,
            net_prefixlen = 15, net_address = ''198.18.0.0''\<rparr>),
         (''198.51.100.0/24'', \<lparr>net_version = 4, net_first = 3325256704, net_last = 3325256959,
            net_prefixlen = 24, net_address = ''198.51.100.0''\<rparr>),
         (''203.0.113.0/24'', \<lparr>net_version = 4, net_first = 3405803776, net_last = 3405804031,
            net_prefixlen = 24, net_address = ''203.0.113.0''\<rparr>),
         (''224.0.0.0/4'', \<lparr>net_version = 4, net_first = 3758096384, net_last = 4026531839,
            net_prefixlen = 4, net_address = ''224.0.0.0''\<rparr>),
         (''240.0.0.0/4'', \<lparr>net_version = 4, net_first = 4026531840, net_last = 4294967295,
            net_prefixlen = 4, net_address = ''240.0.0.0''\<rparr>),
         (''255.255.255.255/32'', \<lparr>net_version = 4, net_first = 4294967295, net_last = 4294967295,
            net_prefixlen = 32, net_address = ''255.255.255.255''\<rparr>)]"

definition sample_lib :: pylib where
  "sample_lib =
     \<lparr>fmt_fixed = (\<lambda>digits x. ''#''),
      sha256_hex = (\<lambda>s. s),
      isoformat = (\<lambda>t. ''T''),
      strftime_compact = (\<lambda>t. ''T''),
      ip_network = map_of sample_networks,
      py_str = (\<lambda>x. (case x of JStr s \<Rightarrow> s | _ \<Rightarrow> ''#''))\<rparr>"

text \<open>
  A store in which the RPKI detector's checkpoint is at 22:13:20 and one feature row, of
  the window starting at 22:14:00, waits to be validated.
\<close>

definition rpki_backlog_db :: database where
  "rpki_backlog_db =
     \<lparr>ip_rib = [], base_attrs = [], features = [quiet_row], detections = [],
      aggregator_state = None, heuristic_state = None,
      rpki_state = Some \<lparr>last_processed_timestamp = Some 1700000000, total_processed = 0\<rparr>\<rparr>"

text \<open>
  Responses of the validator in the shape the detector reads: a state, a reason, and the
  matched and unmatched VRPs.
\<close>

definition validator_response :: "string \<Rightarrow> string \<Rightarrow> json list \<Rightarrow> json list \<Rightarrow> json" where
  "validator_response st why matched unmatched =
     JObj [(''validated_route'', JObj
        [(''validity'', JObj [(''state'', JStr st), (''reason'', JStr why)]),
         (''vrps'', JObj [(''matched'', JArr matched), (''unmatched'', JArr unmatched)])])]"




section \<open>Basic facts\<close>

lemma py_bind_Inr [simp]: "py_bind (Inr v) f = f v"
  by (simp add: py_bind_def)

lemma py_bind_Inl [simp]: "py_bind (Inl e) f = Inl e"
  by (simp add: py_bind_def)

section \<open>Properties of the heuristic detector\<close>

lemmas session_resets_thresholds =
  session_resets_medium_def session_resets_high_def session_resets_critical_def

text \<open>
  C8 (as the code has it). The \<open>session_resets\<close> rule is silent below 6 resets, fires
  with severity medium from 6 to 10, with severity high from 11 to 50 (50 included), and
  with severity critical only above 50: the critical test is the strict
  \<open>session_resets > 50\<close>.
\<close>

theorem check_session_resets_severity:
  "(check_session_resets row = None) = (session_resets row < 6) \<and>
   (map_option severity (check_session_resets row) = Some ''medium'')
      = (6 \<le> session_resets row \<and> session_resets row < 11) \<and>
   (map_option severity (check_session_resets row) = Some ''high'')
      = (11 \<le> session_resets row \<and> session_resets row \<le> 50) \<and>
   (map_option severity (check_session_resets row) = Some ''critical'')
      = (session_resets row > 50)"
  by (auto simp: check_session_resets_def session_resets_thresholds Let_def)

text \<open>
  C8 as the specification states it fails at exactly 50 resets: the claim asks for
  critical there, the rule answers high.
\<close>

theorem check_session_resets_at_50:
  "map_option severity (check_session_resets (quiet_row\<lparr>session_resets := 50\<rparr>)) = Some ''high''"
  by (simp add: check_session_resets_def session_resets_thresholds quiet_row_def)

text \<open>
  What \<open>build_detection\<close> stores for a row with hits: a detection of event type
  \<open>heuristic\<close> whose \<open>triggered_rules\<close> is a list of objects, one per hit.
\<close>

lemma build_detection_nonempty:
  "hits \<noteq> [] \<Longrightarrow> \<exists>d. build_detection lib row hits = Inr d"
  by (cases hits rule: determine_classification.cases) (simp_all add: build_detection_def)

lemma build_detection_fields:
  assumes "build_detection lib row hits = Inr d"
  shows "event_type d = ''heuristic''"
    and "\<exists>s. metadata d = heuristic_metadata row hits s"
    and "get_max_severity hits = Inr (combined_severity d)"
    and "detection_id d = generate_detection_id lib (window_start row) (prefix row) (origin_as row)"
    and "det_timestamp d = window_start row"
  using assms
  by (cases hits rule: determine_classification.cases; auto simp: build_detection_def)+

section \<open>Properties of the correlator\<close>

lemma triggered_rules_are_objects: "JStr x \<notin> hit_json ` set hits"
  by (auto simp: hit_json_def)

text \<open>
  No detection written by the heuristic detector sets \<open>has_path_inflation\<close>: the
  membership test \<open>'path_inflation' in rules\<close> compares a string with rule objects.
\<close>

lemma scan_heuristic_built_detection:
  assumes "build_detection lib row hits = Inr d"
  shows "scan_heuristic [d] has_path_inflation = Inr has_path_inflation"
proof -
  obtain s where "metadata d = heuristic_metadata row hits s"
    using build_detection_fields(2)[OF assms] by blast
  then show ?thesis
    by (simp add: heuristic_metadata_def dict_get_def triggered_rules_are_objects)
qed

lemma leak_rpki_scan:
  "scan_rpki_invalid [leak_rpki_detection] False False = Inr (False, True)"
  by (simp add: leak_rpki_detection_def dict_get_def lower_def lower_char_def)

lemma max_severity_label_with_high:
  "\<exists>k. max_severity_label [leak_rpki_detection, d] = Inr k"
proof -
  have "correlator_severity_order (combined_severity leak_rpki_detection) = 3"
    by (simp add: leak_rpki_detection_def correlator_severity_order_def
        correlator_severity_items_def)
  moreover have "correlator_severity_order (combined_severity d) \<le> 4"
    by (auto simp: correlator_severity_order_def correlator_severity_items_def)
  ultimately have
    "max (correlator_severity_order (combined_severity d))
         (correlator_severity_order (combined_severity leak_rpki_detection)) \<in> {3, 4}"
    by (auto simp: max_def)
  then show ?thesis
    by (auto simp: max_severity_label_def correlator_severity_items_def max.commute)
qed

lemma leak_row_path_inflation:
  "check_path_inflation lib no_faults leak_history leak_row =
     Some \<lparr>rule_name = ''path_inflation_high'', severity = ''high'', score = 8 / 10,
       reason = ''path_length='' @ fmt_fixed lib 1 12 @ '', baseline='' @ fmt_fixed lib 1 4
         @ '', delta='' @ fmt_fixed lib 1 8 @ '' (>5 hop increase) - suspicious path change''\<rparr>"
  by (simp add: check_path_inflation_def leak_row_def leak_history_def quiet_row_def
      no_faults_def baseline_path_def
      path_inflation_high_def path_inflation_critical_def)

lemma map_filter_id_mem: "Some h \<in> set xs \<Longrightarrow> h \<in> set (List.map_filter (\<lambda>hit. hit) xs)"
  by (induction xs) (auto split: option.splits)

lemma leak_row_has_path_inflation_hit:
  "''path_inflation_high'' \<in> set (map rule_name (apply_heuristics lib no_faults leak_history leak_row))"
proof -
  let ?h = "\<lparr>rule_name = ''path_inflation_high'', severity = ''high'', score = 8 / 10,
       reason = ''path_length='' @ fmt_fixed lib 1 12 @ '', baseline='' @ fmt_fixed lib 1 4
         @ '', delta='' @ fmt_fixed lib 1 8 @ '' (>5 hop increase) - suspicious path change''\<rparr>"
  have "?h \<in> set (apply_heuristics lib no_faults leak_history leak_row)"
    unfolding apply_heuristics_def
    by (rule map_filter_id_mem) (simp add: leak_row_path_inflation)
  then have "rule_name ?h \<in> rule_name ` set (apply_heuristics lib no_faults leak_history leak_row)"
    by (rule imageI)
  then show ?thesis by simp
qed

text \<open>
  C1 (the code at a route leak). The heuristic detector fires \<open>path_inflation_high\<close> on
  the leak row, whatever the library functions return, and stores a detection; grouped
  with the RPKI MaxLength detection of the same prefix, origin and minute, the group is
  classified LEAK with severity high (rule 3), not critical (rule 2).
\<close>

theorem route_leak_group_classified_high:
  "''path_inflation_high''
      \<in> set (map rule_name (apply_heuristics lib no_faults leak_history leak_row)) \<and>
   py_bind (build_detection lib leak_row (apply_heuristics lib no_faults leak_history leak_row))
      (\<lambda>d. classify_detection_group [leak_rpki_detection, d])
    = Inr (''LEAK'', ''high'', 2, ''RPKI MaxLength violation - potential route leak'')"
proof -
  let ?hits = "apply_heuristics lib no_faults leak_history leak_row"
  have mem: "''path_inflation_high'' \<in> set (map rule_name ?hits)"
    by (rule leak_row_has_path_inflation_hit)
  then have "?hits \<noteq> []" by auto
  then obtain d where d: "build_detection lib leak_row ?hits = Inr d"
    using build_detection_nonempty by blast
  have ev: "event_type d = ''heuristic''"
    by (rule build_detection_fields(1)[OF d])
  obtain k where k: "max_severity_label [leak_rpki_detection, d] = Inr k"
    using max_severity_label_with_high by blast
  have rp: "event_type leak_rpki_detection = ''rpki''" "rpki_status leak_rpki_detection = ''invalid''"
    by (simp_all add: leak_rpki_detection_def)
  have "classify_detection_group [leak_rpki_detection, d]
          = Inr (''LEAK'', ''high'', 2, ''RPKI MaxLength violation - potential route leak'')"
    unfolding classify_detection_group_def
    by (simp add: ev rp k leak_rpki_scan scan_heuristic_built_detection[OF d] Let_def
        del: scan_rpki_invalid.simps scan_heuristic.simps)
  with d mem show ?thesis by simp
qed

text \<open>
  The same group with \<open>triggered_rules\<close> holding the bare string \<open>path_inflation\<close>, which
  no detector writes, is the one input shape that reaches rule 2.
\<close>

lemma route_leak_group_bare_rule_name:
  "classify_detection_group
     [leak_rpki_detection,
      leak_rpki_detection\<lparr>event_type := ''heuristic'', rpki_status := ''unknown'',
        metadata := JObj [(''triggered_rules'', JArr [JStr ''path_inflation''])]\<rparr>]
    = Inr (''LEAK'', ''critical'', 2, ''RPKI MaxLength violation + Path inflation - route leak'')"
  by (simp add: classify_detection_group_def leak_rpki_detection_def dict_get_def lower_def
      lower_char_def max_severity_label_def correlator_severity_order_def
      correlator_severity_items_def Let_def)

section \<open>Properties of the RPKI detector\<close>

lemma rpki_update_state_changes_nothing:
  "rpki_update_state faults db last_timestamp processed_count = db"
  by (simp add: rpki_update_state_def execute_state_update_def bind_parameters_def
      update_state_sql_def)


lemma insert_rpki_detection_state:
  "rpki_state (insert_rpki_detection lib faults now db row res) = rpki_state db"
  by (simp add: insert_rpki_detection_def Let_def)

lemma rpki_process_feature_rows_state:
  "rpki_state (fst (rpki_process_feature_rows lib http faults now db rows n)) = rpki_state db"
  by (induction rows arbitrary: db n)
     (auto simp: insert_rpki_detection_state split: option.splits)

lemma rpki_main_iteration_state:
  "rpki_state (rpki_main_iteration lib http faults now db) = rpki_state db"
  by (simp add: rpki_main_iteration_def Let_def rpki_update_state_changes_nothing
      case_prod_beta rpki_process_feature_rows_state)

text \<open>
  C2 (the code on a waiting batch). The checkpoint is at 22:13:20 and the poll fetches
  the one feature row of the window starting at 22:14:00. Whatever the validator answers,
  the state row after the poll is the state row before it: \<open>update_state\<close> executes its
  statement without the two parameters, the statement fails, and the handler rolls back.
\<close>

theorem rpki_checkpoint_not_advanced:
  "fetch_new_features no_faults rpki_backlog_db
      (rpki_get_last_processed_timestamp no_faults now rpki_backlog_db) = [quiet_row] \<and>
   Max (set (map window_start [quiet_row])) = 1700000040 \<and>
   rpki_state (rpki_main_iteration lib http no_faults now rpki_backlog_db)
     = Some \<lparr>last_processed_timestamp = Some 1700000000, total_processed = 0\<rparr>"
  by (simp add: rpki_main_iteration_state)
     (simp add: rpki_backlog_db_def fetch_new_features_def rpki_get_last_processed_timestamp_def
        no_faults_def quiet_row_def)

lemma attempts_loop_requests:
  "length (request_timeouts (snd (attempts_loop http url attempts))) \<le> length attempts \<and>
   set (request_timeouts (snd (attempts_loop http url attempts))) \<subseteq> {REQUEST_TIMEOUT}"
proof (induction attempts)
  case Nil
  then show ?case by simp
next
  case (Cons attempt rest)
  have app: "request_timeouts (xs @ ys) = request_timeouts xs @ request_timeouts ys" for xs ys
    by (induction xs rule: request_timeouts.induct) simp_all
  from Cons show ?case
    by (cases "http attempt") (auto simp: case_prod_beta app)
qed

lemma query_routinator_api_requests:
  "length (request_timeouts (snd (query_routinator_api lib http asn p))) \<le> 3 \<and>
   set (request_timeouts (snd (query_routinator_api lib http asn p))) \<subseteq> {5}"
proof (cases "ip_network lib p")
  case None
  then show ?thesis by (simp add: query_routinator_api_def)
next
  case (Some network)
  show ?thesis
    using attempts_loop_requests[of "http (validity_url asn network)" "validity_url asn network"
        "[0..<MAX_RETRIES]"]
    by (simp add: query_routinator_api_def Some Let_def MAX_RETRIES_def REQUEST_TIMEOUT_def)
qed

lemma three_timeouts:
  assumes "\<And>a. a < 3 \<Longrightarrow> http a = Timeout"
  shows "attempts_loop http url [0..<MAX_RETRIES] =
           (None, [HttpGet url 5, Sleep 2, HttpGet url 5, Sleep 2, HttpGet url 5])"
proof -
  have "http 0 = Timeout" "http 1 = Timeout" "http 2 = Timeout"
    using assms by simp_all
  moreover have "[0..<MAX_RETRIES] = [0, 1, 2]"
    by (simp add: MAX_RETRIES_def upt_rec)
  ultimately show ?thesis
    by (simp add: MAX_RETRIES_def REQUEST_TIMEOUT_def)
qed

text \<open>
  C9. A query sends at most three requests, each with the timeout of five seconds.
  When the three attempts of the query for a feature row all time out (two seconds of
  sleep after the first and after the second), \<open>query_routinator_api\<close> returns nothing,
  \<open>validate_rpki\<close> gives no result, and processing the row stores nothing and counts no
  detection.
\<close>

theorem rpki_retry_budget:
  "length (request_timeouts (snd (query_routinator_api lib http (origin_as row) (prefix row)))) \<le> 3 \<and>
   set (request_timeouts (snd (query_routinator_api lib http (origin_as row) (prefix row)))) \<subseteq> {5} \<and>
   (ip_network lib (prefix row) = Some network \<longrightarrow>
    (\<forall>a < 3. http (validity_url (origin_as row) network) a = Timeout) \<longrightarrow>
      query_routinator_api lib http (origin_as row) (prefix row) =
        (None, [HttpGet (validity_url (origin_as row) network) 5, Sleep 2,
                HttpGet (validity_url (origin_as row) network) 5, Sleep 2,
                HttpGet (validity_url (origin_as row) network) 5]) \<and>
      fst (validate_rpki lib http row) = None \<and>
      rpki_process_feature_rows lib http faults now db [row] n = (db, n))"
proof -
  have q: "query_routinator_api lib http (origin_as row) (prefix row) =
        (None, [HttpGet (validity_url (origin_as row) network) 5, Sleep 2,
                HttpGet (validity_url (origin_as row) network) 5, Sleep 2,
                HttpGet (validity_url (origin_as row) network) 5])"
    if net: "ip_network lib (prefix row) = Some network"
      and tmo: "\<forall>a < 3. http (validity_url (origin_as row) network) a = Timeout"
    using three_timeouts[of "http (validity_url (origin_as row) network)"] tmo
    by (simp add: query_routinator_api_def net Let_def)
  have v: "fst (validate_rpki lib http row) = None"
    if "query_routinator_api lib http (origin_as row) (prefix row) = (None, ev)" for ev
    using that by (simp add: validate_rpki_def split: option.splits)
  show ?thesis
    using query_routinator_api_requests[of lib http "origin_as row" "prefix row"] q v
    by auto
qed

theorem rpki_retry_budget_witness:
  "ip_network sample_lib (prefix quiet_row)
     = Some \<lparr>net_version = 4, net_first = 134744064, net_last = 134744319,
             net_prefixlen = 24, net_address = ''8.8.8.0''\<rparr> \<and>
   request_timeouts (snd (query_routinator_api sample_lib (\<lambda>url attempt. Timeout)
                            (origin_as quiet_row) (prefix quiet_row))) = [5, 5, 5] \<and>
   fst (validate_rpki sample_lib (\<lambda>url attempt. Timeout) quiet_row) = None \<and>
   rpki_process_feature_rows sample_lib (\<lambda>url attempt. Timeout) no_faults 1700000100
       rpki_backlog_db [quiet_row] 0 = (rpki_backlog_db, 0)"
proof -
  have net: "ip_network sample_lib (prefix quiet_row)
     = Some \<lparr>net_version = 4, net_first = 134744064, net_last = 134744319,
             net_prefixlen = 24, net_address = ''8.8.8.0''\<rparr>"
    by (simp add: sample_lib_def sample_networks_def quiet_row_def)
  show ?thesis
    using net rpki_retry_budget[of sample_lib "\<lambda>url attempt. Timeout" quiet_row
        "\<lparr>net_version = 4, net_first = 134744064, net_last = 134744319,
          net_prefixlen = 24, net_address = ''8.8.8.0''\<rparr>" no_faults 1700000100
        rpki_backlog_db 0]
    by simp
qed

lemma decide_response_unfold:
  assumes "validated_route_of resp = Some vr" and "validity_of resp = Some v"
  shows "decide_response lib p origin plen resp =
           (let st = dict_get v ''state'' (JStr ''unknown'');
                vrps = dict_get vr ''vrps'' (JObj [])
            in if st = JStr ''valid'' then Inr None
               else if st = JStr ''invalid'' then
                 py_bind (decide_invalid lib origin plen v vrps) (\<lambda>res. Inr (Some res))
               else if st = JStr ''not-found'' \<or> st = JStr ''unknown'' then
                 Inr (Some (''unknown'', ''low'',
                            ''No ROA found for prefix '' @ p @ '' origin AS''
                              @ str_int origin @ '' - INFORMATIONAL'', vrps))
               else Inr None)"
  using assms
  by (auto simp: decide_response_def validated_route_of_def validity_of_def as_dict_def Let_def
      split: json.splits)

lemma state_of_SomeD:
  assumes "state_of resp = Some st"
  obtains vr v where "validated_route_of resp = Some vr" "validity_of resp = Some v"
    "dict_get v ''state'' (JStr ''unknown'') = st"
  using assms
  by (auto simp: state_of_def validity_of_def split: option.splits)

lemma get_severity_score_values:
  "get_severity_score ''critical'' = 10"
  "get_severity_score ''high'' = 7"
  "get_severity_score ''medium'' = 5"
  "get_severity_score ''low'' = 2"
  by (simp_all add: get_severity_score_def lower_def lower_char_def)

lemma rpki_detection_severity:
  "combined_severity (rpki_detection lib now row (vs, sev, desc, vrps)) = sev"
  "combined_score (rpki_detection lib now row (vs, sev, desc, vrps)) = get_severity_score sev"
  "rpki_status (rpki_detection lib now row (vs, sev, desc, vrps)) = vs"
  by (simp_all add: rpki_detection_def)

lemma decide_invalid_severity:
  assumes "decide_invalid lib origin plen v vrps = Inr (vs, sev, desc, vrps')"
  shows "sev = ''critical'' \<or> sev = ''high''"
  using assms
  by (auto simp: decide_invalid_def Let_def py_bind_def
      split: sum.splits list.splits option.splits if_splits)

lemma decide_response_severity:
  assumes "decide_response lib p origin plen resp = Inr (Some (vs, sev, desc, vrps))"
  shows "sev = ''critical'' \<or> sev = ''high'' \<or> sev = ''low''"
proof -
  from assms obtain body vr v where
    "validated_route_of resp = Some vr" "validity_of resp = Some v"
    by (auto simp: decide_response_def validated_route_of_def validity_of_def as_dict_def
        py_bind_def split: json.splits sum.splits)
  from assms[unfolded decide_response_unfold[OF this]] show ?thesis
    by (auto simp: Let_def py_bind_def split: if_splits sum.splits
        dest: decide_invalid_severity)
qed

text \<open>
  C5 (as the code has it). For every response of the validator, with \<open>state\<close>, \<open>reason\<close>
  and \<open>vrps\<close> as \<open>validate_rpki\<close> reads them: state \<open>valid\<close> gives no detection; state
  \<open>invalid\<close> with a reason containing \<open>as\<close> or \<open>origin\<close> gives a detection of severity
  critical and score 10 when the matched or unmatched VRPs carry an \<open>asn\<close> that is truthy
  and differs from the announced origin (the guard \<open>if roa_origins\<close>); state \<open>not-found\<close>
  or \<open>unknown\<close> gives a detection of severity low and score 2; and every detection built
  has severity critical, high or low and the score that the map
  \<open>{critical: 10, high: 7, medium: 5, low: 2}\<close> gives its severity.
\<close>

theorem rpki_decision_table:
  "(state_of resp = Some (JStr ''valid'') \<longrightarrow>
      decide_response lib (prefix row) (origin_as row) plen resp = Inr None) \<and>
   (state_of resp = Some (JStr ''invalid'') \<longrightarrow>
    reason_of resp = Some (JStr why) \<longrightarrow>
    (str_contains ''as'' (lower why) \<or> str_contains ''origin'' (lower why)) \<longrightarrow>
    vrps_of resp = Some vrps \<longrightarrow>
    roa_origins_of (origin_as row) vrps = Inr (roa # others) \<longrightarrow>
      (\<exists>desc. decide_response lib (prefix row) (origin_as row) plen resp
                 = Inr (Some (''invalid'', ''critical'', desc, vrps)) \<and>
         combined_severity (rpki_detection lib now row (''invalid'', ''critical'', desc, vrps))
           = ''critical'' \<and>
         combined_score (rpki_detection lib now row (''invalid'', ''critical'', desc, vrps))
           = 10)) \<and>
   (state_of resp = Some (JStr ''not-found'') \<or> state_of resp = Some (JStr ''unknown'') \<longrightarrow>
      (\<exists>desc vrps. decide_response lib (prefix row) (origin_as row) plen resp
                      = Inr (Some (''unknown'', ''low'', desc, vrps)) \<and>
         combined_severity (rpki_detection lib now row (''unknown'', ''low'', desc, vrps))
           = ''low'' \<and>
         combined_score (rpki_detection lib now row (''unknown'', ''low'', desc, vrps)) = 2)) \<and>
   (decide_response lib (prefix row) (origin_as row) plen resp = Inr (Some res) \<longrightarrow>
      combined_severity (rpki_detection lib now row res) \<in> {''critical'', ''high'', ''low''} \<and>
      Some (combined_score (rpki_detection lib now row res))
        = map_of [(''critical'', 10), (''high'', 7), (''medium'', 5), (''low'', 2)]
            (combined_severity (rpki_detection lib now row res)))"
proof (intro conjI impI)
  assume "state_of resp = Some (JStr ''valid'')"
  then show "decide_response lib (prefix row) (origin_as row) plen resp = Inr None"
    by (elim state_of_SomeD) (simp add: decide_response_unfold)
next
  assume st: "state_of resp = Some (JStr ''invalid'')"
    and why: "reason_of resp = Some (JStr why)"
    and kw: "str_contains ''as'' (lower why) \<or> str_contains ''origin'' (lower why)"
    and vrps: "vrps_of resp = Some vrps"
    and roa: "roa_origins_of (origin_as row) vrps = Inr (roa # others)"
  from st obtain vr v where vr: "validated_route_of resp = Some vr"
    and v: "validity_of resp = Some v"
    and s: "dict_get v ''state'' (JStr ''unknown'') = JStr ''invalid''"
    by (rule state_of_SomeD)
  from why v have r: "dict_get v ''reason'' (JStr []) = JStr why"
    by (simp add: reason_of_def)
  from vrps vr have vv: "dict_get vr ''vrps'' (JObj []) = vrps"
    by (simp add: vrps_of_def)
  have "decide_invalid lib (origin_as row) plen v vrps =
          Inr (''invalid'', ''critical'',
               ''Origin AS mismatch: announced AS'' @ str_int (origin_as row)
                 @ '', ROA expects AS'' @ py_str lib roa @ '' - HIJACK SIGNAL'', vrps)"
    using kw by (auto simp: decide_invalid_def Let_def r as_lower_def roa)
  then have "decide_response lib (prefix row) (origin_as row) plen resp =
          Inr (Some (''invalid'', ''critical'',
               ''Origin AS mismatch: announced AS'' @ str_int (origin_as row)
                 @ '', ROA expects AS'' @ py_str lib roa @ '' - HIJACK SIGNAL'', vrps))"
    by (simp add: decide_response_unfold[OF vr v] s vv Let_def)
  then show "\<exists>desc. decide_response lib (prefix row) (origin_as row) plen resp
                 = Inr (Some (''invalid'', ''critical'', desc, vrps)) \<and>
         combined_severity (rpki_detection lib now row (''invalid'', ''critical'', desc, vrps))
           = ''critical'' \<and>
         combined_score (rpki_detection lib now row (''invalid'', ''critical'', desc, vrps))
           = 10"
    by (simp add: rpki_detection_severity get_severity_score_values)
next
  assume "state_of resp = Some (JStr ''not-found'') \<or> state_of resp = Some (JStr ''unknown'')"
  then obtain st where st: "state_of resp = Some (JStr st)"
    and cases: "st = ''not-found'' \<or> st = ''unknown''"
    by auto
  from st obtain vr v where vr: "validated_route_of resp = Some vr"
    and v: "validity_of resp = Some v"
    and s: "dict_get v ''state'' (JStr ''unknown'') = JStr st"
    by (rule state_of_SomeD)
  have "decide_response lib (prefix row) (origin_as row) plen resp =
          Inr (Some (''unknown'', ''low'',
                ''No ROA found for prefix '' @ prefix row @ '' origin AS''
                  @ str_int (origin_as row) @ '' - INFORMATIONAL'',
                dict_get vr ''vrps'' (JObj [])))"
    using cases by (auto simp: decide_response_unfold[OF vr v] s Let_def)
  then show "\<exists>desc vrps. decide_response lib (prefix row) (origin_as row) plen resp
                      = Inr (Some (''unknown'', ''low'', desc, vrps)) \<and>
         combined_severity (rpki_detection lib now row (''unknown'', ''low'', desc, vrps))
           = ''low'' \<and>
         combined_score (rpki_detection lib now row (''unknown'', ''low'', desc, vrps)) = 2"
    by (simp add: rpki_detection_severity get_severity_score_values)
next
  assume res: "decide_response lib (prefix row) (origin_as row) plen resp = Inr (Some res)"
  obtain vs sev desc vrps where t: "res = (vs, sev, desc, vrps)"
    by (cases res) auto
  from decide_response_severity[OF res[unfolded t]]
  have sev: "sev = ''critical'' \<or> sev = ''high'' \<or> sev = ''low''" .
  then show "combined_severity (rpki_detection lib now row res)
        \<in> {''critical'', ''high'', ''low''}"
    by (auto simp: t rpki_detection_severity)
  from sev show "Some (combined_score (rpki_detection lib now row res))
        = map_of [(''critical'', 10), (''high'', 7), (''medium'', 5), (''low'', 2)]
            (combined_severity (rpki_detection lib now row res))"
    by (auto simp: t rpki_detection_severity get_severity_score_values)
qed

lemmas validator_response_reading =
  validator_response_def state_of_def reason_of_def vrps_of_def validity_of_def
  validated_route_of_def dict_get_def

theorem rpki_decision_table_witness:
  "state_of (validator_response ''valid'' [] [] []) = Some (JStr ''valid'') \<and>
   decide_response sample_lib (prefix quiet_row) (origin_as quiet_row) 24
       (validator_response ''valid'' [] [] []) = Inr None \<and>
   state_of (validator_response ''invalid'' ''as'' [] [JObj [(''asn'', JStr ''AS64500'')]])
     = Some (JStr ''invalid'') \<and>
   roa_origins_of (origin_as quiet_row)
       (JObj [(''matched'', JArr []), (''unmatched'', JArr [JObj [(''asn'', JStr ''AS64500'')]])])
     = Inr [JStr ''AS64500''] \<and>
   (\<exists>desc. decide_response sample_lib (prefix quiet_row) (origin_as quiet_row) 24
              (validator_response ''invalid'' ''as'' [] [JObj [(''asn'', JStr ''AS64500'')]])
            = Inr (Some (''invalid'', ''critical'', desc,
                 JObj [(''matched'', JArr []),
                       (''unmatched'', JArr [JObj [(''asn'', JStr ''AS64500'')]])]))) \<and>
   state_of (validator_response ''not-found'' [] [] []) = Some (JStr ''not-found'') \<and>
   (\<exists>desc vrps. decide_response sample_lib (prefix quiet_row) (origin_as quiet_row) 24
              (validator_response ''not-found'' [] [] [])
            = Inr (Some (''unknown'', ''low'', desc, vrps)) \<and>
       combined_score (rpki_detection sample_lib 1700000100 quiet_row
                         (''unknown'', ''low'', desc, vrps)) = 2)"
proof -
  let ?vrps = "JObj [(''matched'', JArr []),
                     (''unmatched'', JArr [JObj [(''asn'', JStr ''AS64500'')]])]"
  let ?hijack = "validator_response ''invalid'' ''as'' [] [JObj [(''asn'', JStr ''AS64500'')]]"
  have h1: "state_of (validator_response ''valid'' [] [] []) = Some (JStr ''valid'')"
    by (simp add: validator_response_reading)
  have h2: "state_of ?hijack = Some (JStr ''invalid'')"
    "reason_of ?hijack = Some (JStr ''as'')"
    "str_contains ''as'' (lower ''as'') \<or> str_contains ''origin'' (lower ''as'')"
    "vrps_of ?hijack = Some ?vrps"
    by (simp_all add: validator_response_reading lower_def lower_char_def)
  have h3: "roa_origins_of (origin_as quiet_row) ?vrps = Inr [JStr ''AS64500'']"
    by (simp add: roa_origins_of_def as_dict_def py_iter_def dict_get_def py_eq_int_def)
  have h4: "state_of (validator_response ''not-found'' [] [] []) = Some (JStr ''not-found'')"
    by (simp add: validator_response_reading)
  note a = rpki_decision_table[of "validator_response ''valid'' [] [] []" sample_lib quiet_row 24
      "[]" "JNull" "JNull" "[]" 1700000100 "([], [], [], JNull)"]
  note b = rpki_decision_table[of ?hijack sample_lib quiet_row 24
      "''as''" ?vrps "JStr ''AS64500''" "[]" 1700000100 "([], [], [], JNull)"]
  note c = rpki_decision_table[of "validator_response ''not-found'' [] [] []" sample_lib
      quiet_row 24 "[]" "JNull" "JNull" "[]" 1700000100 "([], [], [], JNull)"]
  from a h1 have A: "decide_response sample_lib (prefix quiet_row) (origin_as quiet_row) 24
       (validator_response ''valid'' [] [] []) = Inr None"
    by blast
  from b h2 h3 have B: "\<exists>desc. decide_response sample_lib (prefix quiet_row) (origin_as quiet_row) 24
              ?hijack = Inr (Some (''invalid'', ''critical'', desc, ?vrps))"
    by blast
  from c h4 have C: "\<exists>desc vrps. decide_response sample_lib (prefix quiet_row) (origin_as quiet_row) 24
              (validator_response ''not-found'' [] [] [])
            = Inr (Some (''unknown'', ''low'', desc, vrps)) \<and>
       combined_score (rpki_detection sample_lib 1700000100 quiet_row
                         (''unknown'', ''low'', desc, vrps)) = 2"
    by blast
  from h1 A h2(1) h3 B h4 C show ?thesis by blast
qed

text \<open>
  C5 as the specification states it fails for a response of state \<open>invalid\<close> and reason
  \<open>as\<close> whose VRP lists name no other origin: the detection has severity high and score
  7, not critical and 10.
\<close>

theorem rpki_invalid_as_without_other_origin:
  "state_of (validator_response ''invalid'' ''as'' [] []) = Some (JStr ''invalid'') \<and>
   reason_of (validator_response ''invalid'' ''as'' [] []) = Some (JStr ''as'') \<and>
   decide_response sample_lib (prefix quiet_row) (origin_as quiet_row) 24
       (validator_response ''invalid'' ''as'' [] [])
     = Inr (Some (''invalid'', ''high'', ''RPKI invalid: as'',
                  JObj [(''matched'', JArr []), (''unmatched'', JArr [])])) \<and>
   combined_severity (rpki_detection sample_lib 1700000100 quiet_row
       (''invalid'', ''high'', ''RPKI invalid: as'',
        JObj [(''matched'', JArr []), (''unmatched'', JArr [])])) = ''high'' \<and>
   combined_score (rpki_detection sample_lib 1700000100 quiet_row
       (''invalid'', ''high'', ''RPKI invalid: as'',
        JObj [(''matched'', JArr []), (''unmatched'', JArr [])])) = 7"
  by (simp add: validator_response_reading decide_response_def decide_invalid_def
      roa_origins_of_def exceeded_max_length_of_def as_dict_def as_lower_def py_iter_def
      lower_def lower_char_def Let_def rpki_detection_severity get_severity_score_values)

text \<open>
  The decision is what \<open>validate_rpki\<close> returns once the validator answers the first
  request with status 200.
\<close>

lemma validate_rpki_answered:
  assumes "rpki_get_prefix_length (prefix row) = Some plen"
    and "ip_network lib (prefix row) = Some network"
    and "http (validity_url (origin_as row) network) 0 = Response 200 (Some resp)"
  shows "fst (validate_rpki lib http row) =
           (case decide_response lib (prefix row) (origin_as row) plen resp of
              Inl e \<Rightarrow> None
            | Inr res \<Rightarrow> res)"
proof -
  have "[0..<MAX_RETRIES] = 0 # [1..<MAX_RETRIES]"
    by (simp add: MAX_RETRIES_def upt_rec)
  then have "query_routinator_api lib http (origin_as row) (prefix row) =
          (Some resp, [HttpGet (validity_url (origin_as row) network) REQUEST_TIMEOUT])"
    using assms by (simp add: query_routinator_api_def Let_def)
  then show ?thesis
    using assms(1) by (simp add: validate_rpki_def split: sum.splits)
qed

section \<open>The main loop of the heuristic detector\<close>

subsection \<open>Processing a batch\<close>





subsection \<open>The checkpoint\<close>


lemma heuristic_poll_batch_eq:
  assumes "\<not> state_read_fails faults" and "\<not> fetch_fails faults"
    and "heuristic_state db = Some st" and "last_processed_timestamp st = Some c"
  shows "heuristic_poll_batch faults now db =
           sort_key window_start (filter (\<lambda>r. c < window_start r) (features db))"
  using assms
  by (simp add: heuristic_poll_batch_def heuristic_get_last_processed_timestamp_def
      heuristic_fetch_new_feature_rows_def)






subsection \<open>What a batch stores\<close>




subsection \<open>Storing the same detections again\<close>

lemma overwrite_detection_id [simp]:
  "detection_id (overwrite_detection e x) = detection_id x"
  by (simp add: overwrite_detection_def)

lemma overwrite_detection_twice [simp]:
  "overwrite_detection e (overwrite_detection d x) = overwrite_detection e x"
  by (simp add: overwrite_detection_def)

lemma overwrite_detection_self [simp]: "overwrite_detection d d = d"
  by (simp add: overwrite_detection_def)













subsection \<open>A private-use origin\<close>











subsection \<open>Replay\<close>







section \<open>Properties of the feature aggregator\<close>







lemma one_update_select:
  "aggregate_select (base_attrs one_update_db) (ip_rib one_update_db) 1700000000 1700000100
     = [one_update_feature]"
  by (simp add: aggregate_select_def scanned_updates_def one_update_db_def group_key_def
      floor_to_1min_def feature_of_group_def joined_as_path_count_def one_update_feature_def
      Let_def)


text \<open>The fallback: the same update without a joined path count gets \<open>2 + 15169 mod 3\<close>.\<close>

lemma one_update_fallback:
  "map path_length (aggregate_select [] (ip_rib one_update_db) 1700000000 1700000100)
     = [Some 3]"
  by (simp add: aggregate_select_def scanned_updates_def one_update_db_def group_key_def
      floor_to_1min_def feature_of_group_def joined_as_path_count_def sql_mod_def Let_def)

text \<open>
  C3 (as the code has it). A second run of \<open>aggregate_once\<close> over the same
  \<open>(from_ts, to_ts]\<close> computes the same rows as the first run and appends them again:
  no insert is ignored, so every triple of the range is in the table twice as often as
  after the first run, while the set of distinct row values is the one the first run
  left.
\<close>

theorem aggregate_once_rerun_appends_again:
  "features (fst (aggregate_once (fst (aggregate_once db from_ts to_ts)) from_ts to_ts))
     = features db @ aggregate_select (base_attrs db) (ip_rib db) from_ts to_ts
                   @ aggregate_select (base_attrs db) (ip_rib db) from_ts to_ts \<and>
   snd (aggregate_once (fst (aggregate_once db from_ts to_ts)) from_ts to_ts)
     = snd (aggregate_once db from_ts to_ts) \<and>
   set (features (fst (aggregate_once (fst (aggregate_once db from_ts to_ts)) from_ts to_ts)))
     = set (features (fst (aggregate_once db from_ts to_ts)))"
  by (auto simp: aggregate_once_def Let_def)

text \<open>
  C3 as the specification states it fails: the checkpoint update of the first pass fails,
  the next pass scans the same range, and the one triple of the range is materialised
  twice.
\<close>

theorem aggregator_rerun_duplicates_row:
  "features (aggregator_main_iteration
               \<lparr>checkpoint_read_fails = False, aggregation_fails = False,
                checkpoint_update_fails = True\<rparr> 1700000100 one_update_db)
     = [one_update_feature] \<and>
   aggregator_state (aggregator_main_iteration
               \<lparr>checkpoint_read_fails = False, aggregation_fails = False,
                checkpoint_update_fails = True\<rparr> 1700000100 one_update_db)
     = Some (Some 1700000000) \<and>
   features (aggregator_main_iteration
               \<lparr>checkpoint_read_fails = False, aggregation_fails = False,
                checkpoint_update_fails = False\<rparr> 1700000100
              (aggregator_main_iteration
               \<lparr>checkpoint_read_fails = False, aggregation_fails = False,
                checkpoint_update_fails = True\<rparr> 1700000100 one_update_db))
     = [one_update_feature, one_update_feature]"
proof -
  have sel: "aggregate_select [(''attr-1'', Some 3)] (ip_rib one_update_db) 1700000000 1700000100
               = [one_update_feature]"
    using one_update_select by (simp add: one_update_db_def)
  have rib: "ip_rib one_update_db = [\<lparr>rib_timestamp = 1700000030, rib_prefix = ''8.8.8.0/24'',
                 rib_origin_as = 15169, iswithdrawn = False, peer_hash_id = ''peer-1'',
                 base_attr_hash_id = Some ''attr-1''\<rparr>]"
    by (simp add: one_update_db_def)
  show ?thesis
    by (simp add: aggregator_main_iteration_def aggregator_get_last_processed_timestamp_def
        aggregate_once_def update_last_processed_timestamp_def one_update_db_def Let_def
        sel[unfolded rib])
qed

section \<open>Properties of the ensemble detector\<close>






text \<open>
  The bucket edges: 2.9999 is low, 3.0 is medium, 5.0 is critical.
\<close>

lemma ensemble_severity_edges:
  "ensemble_severity (29999 / 10000) = ''low''"
  "ensemble_severity 3 = ''medium''"
  "ensemble_severity 5 = ''critical''"
  by (simp_all add: ensemble_severity_def)


end
